theory Spec2Isabelle
  imports Complex_Main
begin

section \<open>Python values, strings and paths\<close>

text \<open>
  Strings are lists of characters. A Python \<^verbatim>\<open>int\<close> is an \<^typ>\<open>int\<close>; the
  retry delays, which Python computes as \<^verbatim>\<open>int * 1.5\<close>, are rationals (every
  delay the code can reach from an integer base below the cap is a dyadic
  rational with a short mantissa, so the binary floating-point value is the
  same number).
\<close>

definition digit_char :: "nat \<Rightarrow> char" where
  "digit_char d = ''0123456789'' ! (d mod 10)"

function dec_digits :: "nat \<Rightarrow> string" where
  "dec_digits n = (if n < 10 then [digit_char n]
                   else dec_digits (n div 10) @ [digit_char (n mod 10)])"
  by pat_completeness auto
termination
  by (relation "measure id") auto

declare dec_digits.simps [simp del]

text \<open>\<^verbatim>\<open>str(n)\<close> and the format \<^verbatim>\<open>f"{n:02d}"\<close> of an integer.\<close>

definition py_str_int :: "int \<Rightarrow> string" where
  "py_str_int n = (if n < 0 then CHR ''-'' # dec_digits (nat (- n)) else dec_digits (nat n))"

definition format_02d :: "int \<Rightarrow> string" where
  "format_02d n = (if 0 \<le> n \<and> n < 10 then CHR ''0'' # dec_digits (nat n) else py_str_int n)"

text \<open>\<^verbatim>\<open>str.isspace\<close> on the code points below 256, and \<^verbatim>\<open>str.strip()\<close>.\<close>

definition py_isspace :: "char \<Rightarrow> bool" where
  "py_isspace c = (let n = (of_char c :: nat)
                   in (9 \<le> n \<and> n \<le> 13) \<or> (28 \<le> n \<and> n \<le> 32) \<or> n = 133 \<or> n = 160)"

definition strip :: "string \<Rightarrow> string" where
  "strip s = rev (dropWhile py_isspace (rev (dropWhile py_isspace s)))"

text \<open>\<^verbatim>\<open>s.startswith(p)\<close> and \<^verbatim>\<open>p in s\<close>.\<close>

fun startswith :: "string \<Rightarrow> string \<Rightarrow> bool" where
  "startswith s [] = True"
| "startswith [] (p # ps) = False"
| "startswith (c # cs) (p # ps) = (c = p \<and> startswith cs ps)"

fun contains :: "string \<Rightarrow> string \<Rightarrow> bool" where
  "contains p [] = (p = [])"
| "contains p (c # cs) = (startswith (c # cs) p \<or> contains p cs)"

text \<open>\<^verbatim>\<open>str.lower()\<close> on ASCII letters.\<close>

definition lower_char :: "char \<Rightarrow> char" where
  "lower_char c = (let n = (of_char c :: nat) in if 65 \<le> n \<and> n \<le> 90 then char_of (n + 32) else c)"

definition lower :: "string \<Rightarrow> string" where
  "lower s = map lower_char s"

text \<open>\<^verbatim>\<open>re.sub(r'[<>:"/\\|?*]', '_', s)\<close>: each listed character becomes an underscore.\<close>

definition forbidden_chars :: "char list" where
  "forbidden_chars = [CHR ''<'', CHR ''>'', CHR '':'', CHR 0x22, CHR ''/'', CHR 0x5C,
                      CHR ''|'', CHR ''?'', CHR ''*'']"

definition sanitize :: "string \<Rightarrow> string" where
  "sanitize s = map (\<lambda>c. if c \<in> set forbidden_chars then CHR ''_'' else c) s"

text \<open>\<^verbatim>\<open>os.path.join(a, b)\<close> of two components, as \<^verbatim>\<open>posixpath\<close> computes it.\<close>

definition path_join :: "string \<Rightarrow> string \<Rightarrow> string" where
  "path_join a b = (if startswith b ''/'' then b
                    else if a = [] \<or> last a = CHR ''/'' then a @ b
                    else a @ ''/'' @ b)"

text \<open>
  The file system is read through a snapshot: a path is mapped to the size of
  the file there, or to \<open>None\<close> when nothing exists at the path.
\<close>

type_synonym filesystem = "string \<Rightarrow> nat option"

definition path_exists :: "filesystem \<Rightarrow> string \<Rightarrow> bool" where
  "path_exists fs p = (fs p \<noteq> None)"

definition getsize :: "filesystem \<Rightarrow> string \<Rightarrow> nat" where
  "getsize fs p = (case fs p of Some n \<Rightarrow> n | None \<Rightarrow> 0)"

text \<open>
  Exceptions are values. \<open>HTTPError\<close> is \<^verbatim>\<open>requests.exceptions.HTTPError\<close> with
  the status code of its response and its \<^verbatim>\<open>str\<close>; \<open>Exception\<close> stands for every
  other subclass of \<^verbatim>\<open>Exception\<close>, with its \<^verbatim>\<open>str\<close>.
\<close>

datatype exn =
    HTTPError int string
  | OSError string
  | SpotifyInvalidUrlException string
  | IndexError string
  | Exception string

fun exn_str :: "exn \<Rightarrow> string" where
  "exn_str (HTTPError code msg) = msg"
| "exn_str (OSError msg) = msg"
| "exn_str (SpotifyInvalidUrlException msg) = msg"
| "exn_str (IndexError msg) = msg"
| "exn_str (Exception msg) = msg"

fun http_status :: "exn \<Rightarrow> int option" where
  "http_status (HTTPError code msg) = Some code"
| "http_status (OSError msg) = None"
| "http_status (SpotifyInvalidUrlException msg) = None"
| "http_status (IndexError msg) = None"
| "http_status (Exception msg) = None"

fun is_OSError :: "exn \<Rightarrow> bool" where
  "is_OSError (HTTPError code msg) = False"
| "is_OSError (OSError msg) = True"
| "is_OSError (SpotifyInvalidUrlException msg) = False"
| "is_OSError (IndexError msg) = False"
| "is_OSError (Exception msg) = False"

datatype 'a outcome = Returns 'a | Raises exn

text \<open>
  What a downloader call hands back. The downloader modules are collaborators
  outside this development; their results are parameters of the model. A
  result dictionary is read only through its keys \<^verbatim>\<open>success\<close>, \<^verbatim>\<open>error\<close> and
  \<^verbatim>\<open>status\<close>.
\<close>

datatype pyval =
    PyNone
  | PyStr string
  | PyBool bool
  | PyDict "bool option" "string option" "string option"

fun truthy :: "pyval \<Rightarrow> bool" where
  "truthy PyNone = False"
| "truthy (PyStr s) = (s \<noteq> [])"
| "truthy (PyBool b) = b"
| "truthy (PyDict s e st) = (s \<noteq> None \<or> e \<noteq> None \<or> st \<noteq> None)"

datatype adapter_call =
    Qobuz_download string string
  | Deezer_download_by_isrc string string
  | Tidal_download string string string
  | Generic_download string string

section \<open>The data model\<close>

record Track =
  external_urls :: string
  title :: string
  artists :: string
  album :: string
  track_number :: int
  duration_ms :: int
  track_id :: string
  isrc :: string
  preview_url :: string

record BulkConfiguration =
  service :: string
  qobuz_region :: string
  deezer_speed :: rat
  output_directory :: string
  filename_format :: string
  use_track_numbers :: bool
  use_album_subfolders :: bool
  max_concurrent_downloads :: int
  retry_404_enabled :: bool
  retry_404_max_attempts :: int
  retry_404_delay :: int

definition default_config :: BulkConfiguration where
  "default_config = \<lparr>service = ''tidal'', qobuz_region = ''us'', deezer_speed = 15 / 2,
     output_directory = '''', filename_format = ''title_artist'', use_track_numbers = True,
     use_album_subfolders = True, max_concurrent_downloads = 1, retry_404_enabled = True,
     retry_404_max_attempts = 10, retry_404_delay = 3\<rparr>"

record BulkItem =
  url :: string
  line_number :: int
  status :: string
  error_message :: string
  retry_count :: int
  tracks_count :: int
  downloaded_count :: int
  failed_tracks :: "(string \<times> string \<times> string) list"
  item_type :: string
  item_title :: string
  output_path :: string
  tracks :: "Track list"

definition new_BulkItem :: "string \<Rightarrow> int \<Rightarrow> BulkItem" where
  "new_BulkItem u n = \<lparr>url = u, line_number = n, status = ''pending'', error_message = '''',
     retry_count = 0, tracks_count = 0, downloaded_count = 0, failed_tracks = [],
     item_type = '''', item_title = '''', output_path = '''', tracks = []\<rparr>"

text \<open>
  The dictionary sent with the \<^verbatim>\<open>bulk_progress\<close> signal. Its key
  \<^verbatim>\<open>estimated_time_remaining\<close>, a reading of the wall clock formatted as text,
  is not part of the model.
\<close>

record progress_data =
  pd_total_urls :: int
  pd_processed_urls :: int
  pd_successful_urls :: int
  pd_failed_urls :: int
  pd_total_tracks :: int
  pd_downloaded_tracks :: int
  pd_failed_tracks :: int
  pd_progress_percentage :: rat
  pd_track_progress_percentage :: rat

text \<open>The dictionary sent with \<^verbatim>\<open>bulk_completed\<close>, without its \<^verbatim>\<open>duration\<close>.\<close>

record completion_data =
  cd_total_urls :: int
  cd_successful_urls :: int
  cd_failed_urls :: int
  cd_total_tracks :: int
  cd_downloaded_tracks :: int
  cd_failed_tracks :: int

text \<open>
  The Qt signals. The two signals of the bulk manager that only carry a status
  text for the window (\<^verbatim>\<open>url_processing\<close> and \<^verbatim>\<open>track_progress\<close>) are left out.
\<close>

datatype signal =
    Bulk_started int
  | Bulk_progress progress_data
  | Bulk_completed completion_data
  | Url_completed int bool string
  | Error_occurred string
  | Track_cached int string
  | Download_progress int string
  | Cache_error_occurred int string
  | Progress string
  | Finished bool string "(string \<times> string \<times> string) list"

text \<open>
  Everything the code does to the outside world is logged as an effect, in
  order: sleeping, calling a downloader, touching the file system, emitting a
  signal.
\<close>

datatype effect =
    Sleep rat
  | Adapter_call adapter_call
  | Rename string string
  | Replace string string
  | Copy2 string string
  | Remove string
  | Makedirs string
  | Emit signal

section \<open>Bulk download: one track, with retry\<close>

text \<open>\<^verbatim>\<open>BulkDownloadManager._get_formatted_filename\<close>\<close>

definition get_formatted_filename :: "BulkConfiguration \<Rightarrow> Track \<Rightarrow> BulkItem \<Rightarrow> string" where
  "get_formatted_filename cfg track item =
     (let filename =
            (if filename_format cfg = ''artist_title''
               then artists track @ '' - '' @ title track @ ''.flac''
             else if filename_format cfg = ''title_only''
               then title track @ ''.flac''
             else title track @ '' - '' @ artists track @ ''.flac'');
          filename' =
            (if (item_type item = ''album'' \<or>
                 (item_type item = ''playlist'' \<and> use_album_subfolders cfg)) \<and>
                use_track_numbers cfg
               then format_02d (track_number track) @ '' - '' @ filename
             else filename)
      in sanitize filename')"

text \<open>
  What one attempt observes: the stop flag as read at the top of the attempt,
  the file system at the existence check, what the downloader call does, the
  file system after the call, the newest \<^verbatim>\<open>*.flac\<close> file found by \<^verbatim>\<open>glob\<close>, and
  whether \<^verbatim>\<open>os.rename\<close> and the copy fallback raise.
\<close>

record attempt_env =
  stop_flag :: bool
  fs_check :: filesystem
  adapter :: "pyval outcome"
  fs_after :: filesystem
  glob_newest :: "string option"
  rename_exn :: "exn option"
  copy_exn :: "exn option"

text \<open>The renaming of the downloaded file and the successful return (lines 559 to 569).\<close>

definition finish_download ::
  "attempt_env \<Rightarrow> string \<Rightarrow> pyval \<Rightarrow> effect list \<Rightarrow> (bool \<times> string) outcome \<times> effect list" where
  "finish_download e filepath downloaded_file effs =
     (case downloaded_file of
        PyStr p \<Rightarrow>
          (if p \<noteq> [] \<and> path_exists (fs_after e) p \<and> p \<noteq> filepath then
             (case rename_exn e of
                None \<Rightarrow> (Returns (True, ''Download completed''), effs @ [Rename p filepath])
              | Some x \<Rightarrow>
                  (if is_OSError x then
                     (case copy_exn e of
                        None \<Rightarrow> (Returns (True, ''Download completed''),
                                 effs @ [Rename p filepath, Copy2 p filepath, Remove p])
                      | Some y \<Rightarrow> (Raises y, effs @ [Rename p filepath, Copy2 p filepath]))
                   else (Raises x, effs @ [Rename p filepath])))
           else (Returns (True, ''Download completed''), effs))
      | _ \<Rightarrow> (Returns (True, ''Download completed''), effs))"

text \<open>
  The three service branches of the \<^verbatim>\<open>try\<close> block (lines 488 to 557), each
  ending in the renaming step.
\<close>

definition qobuz_attempt ::
  "attempt_env \<Rightarrow> Track \<Rightarrow> BulkItem \<Rightarrow> string \<Rightarrow> (bool \<times> string) outcome \<times> effect list" where
  "qobuz_attempt e track item filepath =
     (if isrc track = [] then (Returns (False, ''No ISRC available for Qobuz''), [])
      else
        (let call = Adapter_call (Qobuz_download (isrc track) (output_path item))
         in case adapter e of
              Raises x \<Rightarrow> (Raises x, [call])
            | Returns r \<Rightarrow> finish_download e filepath r [call]))"

definition deezer_attempt ::
  "attempt_env \<Rightarrow> Track \<Rightarrow> BulkItem \<Rightarrow> string \<Rightarrow> (bool \<times> string) outcome \<times> effect list" where
  "deezer_attempt e track item filepath =
     (if isrc track = [] then (Returns (False, ''No ISRC available for Deezer''), [])
      else
        (let call = Adapter_call (Deezer_download_by_isrc (isrc track) (output_path item))
         in case adapter e of
              Raises x \<Rightarrow> (Raises x, [call])
            | Returns success \<Rightarrow>
                (if truthy success then
                   finish_download e filepath
                     (case glob_newest e of Some p \<Rightarrow> PyStr p | None \<Rightarrow> PyNone) [call]
                 else (Raises (Exception ''Deezer download failed''), [call]))))"

definition tidal_result ::
  "attempt_env \<Rightarrow> string \<Rightarrow> pyval \<Rightarrow> effect list \<Rightarrow> (bool \<times> string) outcome \<times> effect list" where
  "tidal_result e filepath r effs =
     (case r of
        PyStr p \<Rightarrow>
          (if path_exists (fs_after e) p then finish_download e filepath (PyStr p) effs
           else (Raises (Exception ''Tidal download returned unexpected result''), effs))
      | PyDict success err st \<Rightarrow>
          (if success = Some False then
             (if err = Some ''Download stopped by user''
                then (Returns (False, ''Download stopped by user''), effs)
              else (Raises (Exception (case err of Some m \<Rightarrow> m
                                       | None \<Rightarrow> ''Tidal download failed'')), effs))
           else finish_download e filepath PyNone effs)
      | _ \<Rightarrow> (Raises (Exception ''Tidal download returned unexpected result''), effs))"

definition tidal_attempt ::
  "attempt_env \<Rightarrow> Track \<Rightarrow> BulkItem \<Rightarrow> string \<Rightarrow> (bool \<times> string) outcome \<times> effect list" where
  "tidal_attempt e track item filepath =
     (if isrc track = [] then (Returns (False, ''No ISRC available for Tidal''), [])
      else
        (let call = Adapter_call (Tidal_download (title track @ '' '' @ artists track)
                                    (isrc track) (output_path item))
         in case adapter e of
              Raises x \<Rightarrow> (Raises x, [call])
            | Returns r \<Rightarrow> tidal_result e filepath r [call]))"

text \<open>
  The body of the \<^verbatim>\<open>try\<close> block of one attempt (lines 477 to 569): the
  destination path, the check for a file that is already there, then the
  branch of the configured service. A service name that is none of the three
  falls through to the successful return.
\<close>

definition attempt_body ::
  "BulkConfiguration \<Rightarrow> attempt_env \<Rightarrow> Track \<Rightarrow> BulkItem \<Rightarrow>
     (bool \<times> string) outcome \<times> effect list" where
  "attempt_body cfg e track item =
     (let filename = get_formatted_filename cfg track item;
          filepath = path_join (output_path item) filename
      in if path_exists (fs_check e) filepath \<and> getsize (fs_check e) filepath > 0
           then (Returns (True, ''File already exists''), [])
         else if service cfg = ''qobuz'' then qobuz_attempt e track item filepath
         else if service cfg = ''deezer'' then deezer_attempt e track item filepath
         else if service cfg = ''tidal'' then tidal_attempt e track item filepath
         else finish_download e filepath PyNone [])"

text \<open>
  The two \<^verbatim>\<open>except\<close> clauses of \<^verbatim>\<open>_download_single_track_with_retry\<close> (lines 571
  to 597). An \<open>HTTPError\<close> is retried when its status is 404 and attempts are
  left; any other exception is retried when attempts are left and its text
  contains \<^verbatim>\<open>404\<close>. Both clauses sleep and grow the delay in the same way.
\<close>

definition retried :: "exn \<Rightarrow> int \<Rightarrow> int \<Rightarrow> bool" where
  "retried x attempt max_attempts =
     (case http_status x of
        Some code \<Rightarrow> code = 404 \<and> attempt < max_attempts
      | None \<Rightarrow> attempt < max_attempts \<and> contains ''404'' (lower (exn_str x)))"

definition failure_message :: "exn \<Rightarrow> string" where
  "failure_message x =
     (case http_status x of
        Some code \<Rightarrow> ''HTTP '' @ py_str_int code @ '': '' @ exn_str x
      | None \<Rightarrow> exn_str x)"

text \<open>
  \<^verbatim>\<open>BulkDownloadManager._download_single_track_with_retry\<close>. The loop
  \<^verbatim>\<open>for attempt in range(1, max_attempts + 1)\<close> is a recursion on the number of
  iterations left; \<open>env attempt\<close> is what attempt number \<open>attempt\<close> observes.
\<close>

fun retry_loop ::
  "BulkConfiguration \<Rightarrow> (int \<Rightarrow> attempt_env) \<Rightarrow> Track \<Rightarrow> BulkItem \<Rightarrow> int \<Rightarrow>
     nat \<Rightarrow> int \<Rightarrow> rat \<Rightarrow> (bool \<times> string) outcome \<times> effect list" where
  "retry_loop cfg env track item max_attempts 0 attempt retry_delay =
     (Returns (False, ''Failed after '' @ py_str_int max_attempts @ '' attempts''), [])"
| "retry_loop cfg env track item max_attempts (Suc left) attempt retry_delay =
     (if stop_flag (env attempt) then (Returns (False, ''Stopped by user''), [])
      else
        (case attempt_body cfg (env attempt) track item of
           (Returns r, effs) \<Rightarrow> (Returns r, effs)
         | (Raises x, effs) \<Rightarrow>
             (if retried x attempt max_attempts then
                (if retry_delay < 0
                   then (Raises (Exception ''sleep length must be non-negative''), effs)
                 else
                   (let (r, effs') = retry_loop cfg env track item max_attempts left (attempt + 1)
                                       (min (retry_delay * (3 / 2)) 30)
                    in (r, effs @ [Sleep retry_delay] @ effs')))
              else (Returns (False, failure_message x), effs))))"

text \<open>
  The function returns a pair \<^verbatim>\<open>(success, message)\<close>. The only exception that
  leaves it is the \<^verbatim>\<open>ValueError\<close> of \<^verbatim>\<open>time.sleep\<close> on a negative delay, raised
  inside an \<^verbatim>\<open>except\<close> clause.
\<close>

definition download_single_track_with_retry ::
  "BulkConfiguration \<Rightarrow> (int \<Rightarrow> attempt_env) \<Rightarrow> Track \<Rightarrow> BulkItem \<Rightarrow>
     (bool \<times> string) outcome \<times> effect list" where
  "download_single_track_with_retry cfg env track item =
     (let retry_delay = of_int (retry_404_delay cfg);
          max_attempts = (if retry_404_enabled cfg then retry_404_max_attempts cfg else 1)
      in retry_loop cfg env track item max_attempts (nat max_attempts) 1 retry_delay)"

text \<open>Reading the log of effects.\<close>

definition is_sleep :: "effect \<Rightarrow> bool" where
  "is_sleep f = (case f of Sleep d \<Rightarrow> True | _ \<Rightarrow> False)"

definition is_adapter_call :: "effect \<Rightarrow> bool" where
  "is_adapter_call f = (case f of Adapter_call c \<Rightarrow> True | _ \<Rightarrow> False)"

fun sleeps :: "effect list \<Rightarrow> rat list" where
  "sleeps [] = []"
| "sleeps (Sleep d # fs) = d # sleeps fs"
| "sleeps (f # fs) = sleeps fs"

section \<open>The playback cache worker\<close>

text \<open>
  \<^verbatim>\<open>SpotiFLAC.py\<close> has a \<^verbatim>\<open>Track\<close> class of its own: the fields of the bulk \<^verbatim>\<open>Track\<close>
  and three mutable fields written by the cache worker.
\<close>

record PlayerTrack = Track +
  cached_file :: string
  is_downloading :: bool
  cache_error :: string

definition MAX_DOWNLOAD_RETRIES :: int where
  "MAX_DOWNLOAD_RETRIES = 3"

definition RETRY_DELAY_SECONDS :: rat where
  "RETRY_DELAY_SECONDS = 2"

record CacheDownloadWorker =
  cw_tracks :: "PlayerTrack list"
  cache_dir :: string
  cw_service :: string
  download_queue :: "int list"
  is_running :: bool

text \<open>
  \<^verbatim>\<open>xs[i]\<close> for a Python list: a negative index counts from the end, and an
  index outside \<open>[-len, len)\<close> raises \<^verbatim>\<open>IndexError\<close> (\<open>None\<close> here).
\<close>

definition py_index :: "'a list \<Rightarrow> int \<Rightarrow> nat option" where
  "py_index xs i =
     (let n = int (length xs)
      in if 0 \<le> i \<and> i < n then Some (nat i)
         else if - n \<le> i \<and> i < 0 then Some (nat (n + i))
         else None)"


text \<open>\<^verbatim>\<open>CacheDownloadWorker._handle_error\<close>, for the track at position \<open>k\<close>.\<close>

definition handle_error :: "CacheDownloadWorker \<Rightarrow> nat \<Rightarrow> string \<Rightarrow> CacheDownloadWorker" where
  "handle_error w k msg =
     w\<lparr>cw_tracks := (cw_tracks w)[k := (cw_tracks w ! k)\<lparr>is_downloading := False, cache_error := msg\<rparr>]\<rparr>"

text \<open>The two assignments that record a cached file (lines 132 to 133 and 154 to 155).\<close>

definition mark_cached :: "CacheDownloadWorker \<Rightarrow> nat \<Rightarrow> string \<Rightarrow> CacheDownloadWorker" where
  "mark_cached w k cache_file =
     w\<lparr>cw_tracks := (cw_tracks w)[k := (cw_tracks w ! k)\<lparr>cached_file := cache_file,
                                                          is_downloading := False\<rparr>]\<rparr>"

text \<open>
  \<^verbatim>\<open>_download_deezer\<close>, \<^verbatim>\<open>_download_tidal\<close> and the Qobuz branch of
  \<^verbatim>\<open>_perform_download\<close>: the value bound to \<^verbatim>\<open>downloaded\<close>, or the exception. The
  fields \<open>stop_flag\<close> and \<open>copy_exn\<close> of the environment are not read by the
  cache worker; \<open>rename_exn\<close> is what \<^verbatim>\<open>os.replace\<close> raises.
\<close>

definition cache_download_deezer ::
  "CacheDownloadWorker \<Rightarrow> attempt_env \<Rightarrow> PlayerTrack \<Rightarrow> pyval outcome \<times> effect list" where
  "cache_download_deezer w e track =
     (if isrc track = [] then (Raises (Exception ''No ISRC per Deezer''), [])
      else
        (let call = Adapter_call (Deezer_download_by_isrc (isrc track) (cache_dir w))
         in case adapter e of
              Raises x \<Rightarrow> (Raises x, [call])
            | Returns success \<Rightarrow>
                (if truthy success
                   then (Returns (case glob_newest e of Some p \<Rightarrow> PyStr p | None \<Rightarrow> PyNone), [call])
                 else (Raises (Exception ''Download Deezer fallito''), [call]))))"

definition cache_download_tidal ::
  "CacheDownloadWorker \<Rightarrow> attempt_env \<Rightarrow> PlayerTrack \<Rightarrow> pyval outcome \<times> effect list" where
  "cache_download_tidal w e track =
     (if isrc track = [] then (Raises (Exception ''No ISRC per Tidal''), [])
      else
        (let call = Adapter_call (Tidal_download (title track @ '' '' @ artists track)
                                    (isrc track) (cache_dir w))
         in case adapter e of
              Raises x \<Rightarrow> (Raises x, [call])
            | Returns (PyStr p) \<Rightarrow>
                (if path_exists (fs_after e) p then (Returns (PyStr p), [call])
                 else (Raises (Exception ''Download Tidal fallito''), [call]))
            | Returns (PyDict success err st) \<Rightarrow>
                (if success = Some False
                   then (Raises (Exception (case err of Some m \<Rightarrow> m | None \<Rightarrow> ''Errore Tidal'')),
                         [call])
                 else (Raises (Exception ''Download Tidal fallito''), [call]))
            | Returns _ \<Rightarrow> (Raises (Exception ''Download Tidal fallito''), [call])))"

definition cache_download_qobuz ::
  "CacheDownloadWorker \<Rightarrow> attempt_env \<Rightarrow> PlayerTrack \<Rightarrow> pyval outcome \<times> effect list" where
  "cache_download_qobuz w e track =
     (if isrc track = [] then (Raises (Exception ''No ISRC per Qobuz''), [])
      else (adapter e, [Adapter_call (Qobuz_download (isrc track) (cache_dir w))]))"

text \<open>The move of the downloaded file into the cache (lines 151 to 158).\<close>

definition move_to_cache ::
  "CacheDownloadWorker \<Rightarrow> attempt_env \<Rightarrow> int \<Rightarrow> nat \<Rightarrow> string \<Rightarrow> pyval \<Rightarrow> effect list \<Rightarrow>
     CacheDownloadWorker outcome \<times> effect list" where
  "move_to_cache w e track_index k cache_file downloaded effs =
     (case downloaded of
        PyStr p \<Rightarrow>
          (if p \<noteq> [] \<and> path_exists (fs_after e) p then
             (case rename_exn e of
                None \<Rightarrow> (Returns (mark_cached w k cache_file),
                         effs @ [Replace p cache_file, Emit (Track_cached track_index cache_file)])
              | Some x \<Rightarrow> (Raises x, effs @ [Replace p cache_file]))
           else (Raises (Exception ''File scaricato non trovato''), effs))
      | _ \<Rightarrow> (Raises (Exception ''File scaricato non trovato''), effs))"

text \<open>
  \<^verbatim>\<open>CacheDownloadWorker._perform_download\<close>, for the track at position \<open>k\<close> (the
  position that \<^verbatim>\<open>track_index\<close> denotes). The worker's state changes only when
  the function returns.
\<close>

definition perform_download ::
  "CacheDownloadWorker \<Rightarrow> attempt_env \<Rightarrow> int \<Rightarrow> nat \<Rightarrow> CacheDownloadWorker outcome \<times> effect list" where
  "perform_download w e track_index k =
     (let track = cw_tracks w ! k;
          safe_title = sanitize (title track);
          safe_artists = sanitize (artists track);
          filename = safe_title @ '' - '' @ safe_artists @ ''.flac'';
          cache_file = path_join (cache_dir w) filename
      in if path_exists (fs_check e) cache_file \<and> getsize (fs_check e) cache_file > 0
           then (Returns (mark_cached w k cache_file), [Emit (Track_cached track_index cache_file)])
         else
           (case (if cw_service w = ''qobuz'' then cache_download_qobuz w e track
                  else if cw_service w = ''deezer'' then cache_download_deezer w e track
                  else cache_download_tidal w e track) of
              (Raises x, effs) \<Rightarrow> (Raises x, effs)
            | (Returns downloaded, effs) \<Rightarrow>
                move_to_cache w e track_index k cache_file downloaded effs))"

text \<open>
  The two \<^verbatim>\<open>except\<close> clauses of \<^verbatim>\<open>CacheDownloadWorker._download_with_retry\<close>: an
  \<open>HTTPError\<close> is retried when its status is 404 and attempts are left, any other
  exception whenever attempts are left.
\<close>

definition cache_retried :: "exn \<Rightarrow> int \<Rightarrow> bool" where
  "cache_retried x attempt =
     (case http_status x of
        Some code \<Rightarrow> code = 404 \<and> attempt < MAX_DOWNLOAD_RETRIES
      | None \<Rightarrow> attempt < MAX_DOWNLOAD_RETRIES)"

definition caching_message :: "int \<Rightarrow> string \<Rightarrow> string" where
  "caching_message attempt t = ''Caching (tentativo '' @ py_str_int attempt @ ''): '' @ t"

text \<open>
  The loop of \<^verbatim>\<open>_download_with_retry\<close> for a valid index: a recursion on the
  number of iterations left.
\<close>

fun cache_retry_loop ::
  "CacheDownloadWorker \<Rightarrow> (int \<Rightarrow> attempt_env) \<Rightarrow> int \<Rightarrow> nat \<Rightarrow> nat \<Rightarrow> int \<Rightarrow>
     CacheDownloadWorker \<times> effect list" where
  "cache_retry_loop w env track_index k 0 attempt = (w, [])"
| "cache_retry_loop w env track_index k (Suc left) attempt =
     (let announce = Emit (Download_progress track_index
                             (caching_message attempt (title (cw_tracks w ! k))))
      in case perform_download w (env attempt) track_index k of
           (Returns w', effs) \<Rightarrow> (w', announce # effs)
         | (Raises x, effs) \<Rightarrow>
             (if cache_retried x attempt then
                (let (w', effs') = cache_retry_loop w env track_index k left (attempt + 1)
                 in (w', announce # effs @ [Sleep RETRY_DELAY_SECONDS] @ effs'))
              else (handle_error w k (exn_str x),
                    announce # effs @ [Emit (Cache_error_occurred track_index (exn_str x))])))"

text \<open>
  \<^verbatim>\<open>CacheDownloadWorker._download_with_retry\<close>. With an index that denotes no
  track every attempt raises \<^verbatim>\<open>IndexError\<close> inside the \<^verbatim>\<open>try\<close>, is retried, and
  \<^verbatim>\<open>_handle_error\<close> raises it again after the last one.
\<close>

definition download_with_retry ::
  "CacheDownloadWorker \<Rightarrow> (int \<Rightarrow> attempt_env) \<Rightarrow> int \<Rightarrow> CacheDownloadWorker outcome \<times> effect list" where
  "download_with_retry w env track_index =
     (case py_index (cw_tracks w) track_index of
        None \<Rightarrow> (Raises (IndexError ''list index out of range''),
                 [Sleep RETRY_DELAY_SECONDS, Sleep RETRY_DELAY_SECONDS])
      | Some k \<Rightarrow>
          (let (w', effs) = cache_retry_loop w env track_index k (nat MAX_DOWNLOAD_RETRIES) 1
           in (Returns w', effs)))"


text \<open>
  \<^verbatim>\<open>CacheDownloadWorker.__init__\<close>: the queue starts empty. The region and speed
  parameters, which are only handed to the downloaders, are left out.
\<close>

definition new_CacheDownloadWorker :: "PlayerTrack list \<Rightarrow> string \<Rightarrow> string \<Rightarrow> CacheDownloadWorker" where
  "new_CacheDownloadWorker ts dir s =
     \<lparr>cw_tracks = ts, cache_dir = dir, cw_service = s, download_queue = [], is_running = True\<rparr>"



section \<open>The bulk download manager\<close>

text \<open>
  \<^verbatim>\<open>BulkProgressTracker\<close>. Its counter of failed tracks is \<open>tracker_failed_tracks\<close>
  here, since \<open>failed_tracks\<close> is the list of a \<^verbatim>\<open>BulkItem\<close>. \<open>start_time\<close> is the
  reading of the clock at the start, in seconds.
\<close>

record BulkProgressTracker =
  total_urls :: int
  processed_urls :: int
  successful_urls :: int
  failed_urls :: int
  total_tracks :: int
  downloaded_tracks :: int
  tracker_failed_tracks :: int
  current_url_index :: int
  start_time :: "rat option"
  current_track_in_url :: int

definition new_BulkProgressTracker :: BulkProgressTracker where
  "new_BulkProgressTracker = \<lparr>total_urls = 0, processed_urls = 0, successful_urls = 0,
     failed_urls = 0, total_tracks = 0, downloaded_tracks = 0, tracker_failed_tracks = 0,
     current_url_index = 0, start_time = None, current_track_in_url = 0\<rparr>"

definition start_tracking :: "int \<Rightarrow> rat \<Rightarrow> BulkProgressTracker \<Rightarrow> BulkProgressTracker" where
  "start_tracking n now t = t\<lparr>total_urls := n, start_time := Some now\<rparr>"

definition update_url_progress ::
  "int \<Rightarrow> int \<Rightarrow> int \<Rightarrow> BulkProgressTracker \<Rightarrow> BulkProgressTracker" where
  "update_url_progress processed successful failed t =
     t\<lparr>processed_urls := processed, successful_urls := successful, failed_urls := failed\<rparr>"

definition update_track_progress ::
  "int \<Rightarrow> int \<Rightarrow> int \<Rightarrow> BulkProgressTracker \<Rightarrow> BulkProgressTracker" where
  "update_track_progress total_tracks' downloaded failed t =
     t\<lparr>total_tracks := total_tracks', downloaded_tracks := downloaded,
       tracker_failed_tracks := failed\<rparr>"

text \<open>
  The two percentages, as rationals. Python computes them in binary floating
  point; the quotient of the two integers is rounded there.
\<close>

definition get_progress_percentage :: "BulkProgressTracker \<Rightarrow> rat" where
  "get_progress_percentage t =
     (if total_urls t = 0 then 0
      else (of_int (processed_urls t) / of_int (total_urls t)) * 100)"

definition get_track_progress_percentage :: "BulkProgressTracker \<Rightarrow> rat" where
  "get_track_progress_percentage t =
     (if total_tracks t = 0 then 0
      else (of_int (downloaded_tracks t) / of_int (total_tracks t)) * 100)"

text \<open>
  The state of a \<^verbatim>\<open>BulkDownloadManager\<close>: its fields, the log of its effects, and
  one ghost field, \<open>history\<close>, that collects every value that the list of items
  takes (one entry for each assignment to a field of an item, and for each
  item appended). \<open>downloader_ready\<close> says that \<^verbatim>\<open>self.downloaders\<close> has the key
  \<^verbatim>\<open>primary\<close>. The flags \<^verbatim>\<open>is_stopped\<close> and \<^verbatim>\<open>is_paused\<close> are written by another
  thread: each read of \<^verbatim>\<open>is_stopped\<close> is a field of the environment. The loops
  that wait while \<^verbatim>\<open>is_paused\<close> holds change nothing and are not part of the
  model; the model continues at the point where such a loop is left.
\<close>

record BulkDownloadManager =
  config :: BulkConfiguration
  bulk_items :: "BulkItem list"
  progress_tracker :: BulkProgressTracker
  downloader_ready :: bool
  log :: "effect list"
  history :: "BulkItem list list"

definition new_BulkDownloadManager :: "BulkConfiguration \<Rightarrow> BulkDownloadManager" where
  "new_BulkDownloadManager cfg = \<lparr>config = cfg, bulk_items = [],
     progress_tracker = new_BulkProgressTracker, downloader_ready = False, log = [],
     history = []\<rparr>"

definition set_items :: "BulkItem list \<Rightarrow> BulkDownloadManager \<Rightarrow> BulkDownloadManager" where
  "set_items items m = m\<lparr>bulk_items := items, history := history m @ [items]\<rparr>"

text \<open>An assignment to fields of the item at position \<open>i\<close>.\<close>

definition upd_item ::
  "nat \<Rightarrow> (BulkItem \<Rightarrow> BulkItem) \<Rightarrow> BulkDownloadManager \<Rightarrow> BulkDownloadManager" where
  "upd_item i f m = set_items ((bulk_items m)[i := f (bulk_items m ! i)]) m"

definition upd_tracker ::
  "(BulkProgressTracker \<Rightarrow> BulkProgressTracker) \<Rightarrow> BulkDownloadManager \<Rightarrow> BulkDownloadManager" where
  "upd_tracker f m = m\<lparr>progress_tracker := f (progress_tracker m)\<rparr>"

definition perform :: "effect list \<Rightarrow> BulkDownloadManager \<Rightarrow> BulkDownloadManager" where
  "perform effs m = m\<lparr>log := log m @ effs\<rparr>"

definition emit :: "signal \<Rightarrow> BulkDownloadManager \<Rightarrow> BulkDownloadManager" where
  "emit s m = perform [Emit s] m"

text \<open>\<^verbatim>\<open>xs[:n]\<close>\<close>

definition py_slice_to :: "'a list \<Rightarrow> int \<Rightarrow> 'a list" where
  "py_slice_to xs n = (if 0 \<le> n then take (nat n) xs else take (length xs - nat (- n)) xs)"

definition is_successful :: "BulkItem \<Rightarrow> bool" where
  "is_successful it = (status it = ''completed'' \<or> status it = ''completed_with_errors'')"

text \<open>\<^verbatim>\<open>BulkDownloadManager._emit_progress_update\<close>\<close>

definition progress_update :: "BulkDownloadManager \<Rightarrow> progress_data" where
  "progress_update m =
     (let t = progress_tracker m;
          seen = py_slice_to (bulk_items m) (current_url_index t + 1)
      in \<lparr>pd_total_urls = total_urls t,
          pd_processed_urls = current_url_index t + 1,
          pd_successful_urls = int (length (filter is_successful seen)),
          pd_failed_urls = int (length (filter (\<lambda>it. status it = ''failed'') seen)),
          pd_total_tracks = total_tracks t,
          pd_downloaded_tracks = downloaded_tracks t,
          pd_failed_tracks = tracker_failed_tracks t,
          pd_progress_percentage = get_progress_percentage t,
          pd_track_progress_percentage = get_track_progress_percentage t\<rparr>)"

definition emit_progress_update :: "BulkDownloadManager \<Rightarrow> BulkDownloadManager" where
  "emit_progress_update m = emit (Bulk_progress (progress_update m)) m"

text \<open>\<^verbatim>\<open>BulkDownloadManager._handle_completion\<close>\<close>

definition handle_completion :: "BulkDownloadManager \<Rightarrow> BulkDownloadManager" where
  "handle_completion m =
     emit (Bulk_completed
       \<lparr>cd_total_urls = int (length (bulk_items m)),
        cd_successful_urls = int (length (filter is_successful (bulk_items m))),
        cd_failed_urls = int (length (filter (\<lambda>it. status it = ''failed'') (bulk_items m))),
        cd_total_tracks = total_tracks (progress_tracker m),
        cd_downloaded_tracks = sum_list (map downloaded_count (bulk_items m)),
        cd_failed_tracks = sum_list (map (\<lambda>it. int (length (failed_tracks it))) (bulk_items m))\<rparr>) m"

subsection \<open>Loading the batch file\<close>

text \<open>
  The loop of \<^verbatim>\<open>_load_urls_from_file\<close> over \<^verbatim>\<open>enumerate(lines, 1)\<close>: \<open>line_num\<close> is
  the number of the line at the head of the list.
\<close>

fun load_lines :: "int \<Rightarrow> string list \<Rightarrow> BulkDownloadManager \<Rightarrow> BulkDownloadManager" where
  "load_lines line_num [] m = m"
| "load_lines line_num (line # rest) m =
     (let u = strip line
      in load_lines (line_num + 1) rest
           (if u \<noteq> [] \<and> \<not> startswith u ''#'' \<and> contains ''spotify.com'' u
              then set_items (bulk_items m @ [new_BulkItem u line_num]) m
            else m))"

text \<open>
  \<^verbatim>\<open>BulkDownloadManager._load_urls_from_file\<close>. The file is given by what reading
  it yields: its lines, or the exception of \<^verbatim>\<open>open\<close> or \<^verbatim>\<open>readlines\<close>.
\<close>

definition load_urls_from_file ::
  "string list outcome \<Rightarrow> BulkDownloadManager \<Rightarrow> bool \<times> BulkDownloadManager" where
  "load_urls_from_file file m =
     (case file of
        Raises x \<Rightarrow> (False, emit (Error_occurred (''Failed to load URLs from file: '' @ exn_str x)) m)
      | Returns lines \<Rightarrow>
          (let m' = load_lines 1 lines m
           in if bulk_items m' = []
                then (False, emit (Error_occurred ''No valid Spotify URLs found in file'') m')
              else (True, m')))"

text \<open>\<^verbatim>\<open>BulkDownloadManager._initialize_downloaders\<close>; \<open>x\<close> is what the constructor raises.\<close>

definition initialize_downloaders :: "exn option \<Rightarrow> BulkDownloadManager \<Rightarrow> BulkDownloadManager" where
  "initialize_downloaders x m =
     (case x of
        None \<Rightarrow> m\<lparr>downloader_ready := True\<rparr>
      | Some e \<Rightarrow> emit (Error_occurred (''Failed to initialize downloaders: '' @ exn_str e)) m)"

subsection \<open>Metadata of one item\<close>

definition MAX_METADATA_RETRIES :: int where
  "MAX_METADATA_RETRIES = 5"

definition INITIAL_RETRY_DELAY :: rat where
  "INITIAL_RETRY_DELAY = 2"

definition MAX_RETRY_DELAY :: rat where
  "MAX_RETRY_DELAY = 30"

definition BACKOFF_MULTIPLIER :: rat where
  "BACKOFF_MULTIPLIER = 3 / 2"

text \<open>
  What one attempt to fetch the metadata meets. \<open>Meta_raises\<close>: the provider or
  \<^verbatim>\<open>parse_uri\<close> raises, or the metadata carry an \<^verbatim>\<open>error\<close> key, before the item is
  touched. \<open>Meta_parsed\<close>: the type of the item, and what extracting the title
  and the tracks gives for an item of a known type.
\<close>

datatype extraction =
    Title_raises exn
  | Tracks_raise string exn
  | Extracted string "Track list"

datatype meta_result =
    Meta_raises exn
  | Meta_parsed string extraction

record meta_attempt_env =
  meta_stop :: bool
  meta_result :: meta_result
  meta_stop_sleep :: bool

fun is_invalid_url :: "exn \<Rightarrow> bool" where
  "is_invalid_url (HTTPError code msg) = False"
| "is_invalid_url (OSError msg) = False"
| "is_invalid_url (SpotifyInvalidUrlException msg) = True"
| "is_invalid_url (IndexError msg) = False"
| "is_invalid_url (Exception msg) = False"

text \<open>The \<^verbatim>\<open>try\<close> block of one attempt, up to the assignment of \<^verbatim>\<open>tracks_count\<close>.\<close>

definition set_tracks_count :: "nat \<Rightarrow> BulkDownloadManager \<Rightarrow> BulkDownloadManager" where
  "set_tracks_count i m = upd_item i (\<lambda>it. it\<lparr>tracks_count := int (length (tracks it))\<rparr>) m"

definition try_fetch ::
  "meta_attempt_env \<Rightarrow> nat \<Rightarrow> BulkDownloadManager \<Rightarrow> exn option \<times> BulkDownloadManager" where
  "try_fetch e i m =
     (case meta_result e of
        Meta_raises x \<Rightarrow> (Some x, m)
      | Meta_parsed ty ext \<Rightarrow>
          (let m1 = upd_item i (\<lambda>it. it\<lparr>item_type := ty\<rparr>) m
           in if ty = ''track'' \<or> ty = ''album'' \<or> ty = ''playlist'' then
                (case ext of
                   Title_raises x \<Rightarrow> (Some x, m1)
                 | Tracks_raise t x \<Rightarrow> (Some x, upd_item i (\<lambda>it. it\<lparr>item_title := t\<rparr>) m1)
                 | Extracted t ts \<Rightarrow>
                     (None, set_tracks_count i
                              (upd_item i (\<lambda>it. it\<lparr>tracks := ts\<rparr>)
                                 (upd_item i (\<lambda>it. it\<lparr>item_title := t\<rparr>) m1))))
              else (None, set_tracks_count i m1)))"

text \<open>The end of \<^verbatim>\<open>_fetch_metadata_for_item\<close> after the loop (lines 331 to 333).\<close>

definition metadata_failed :: "nat \<Rightarrow> string \<Rightarrow> BulkDownloadManager \<Rightarrow> BulkDownloadManager" where
  "metadata_failed i last_error m =
     upd_item i (\<lambda>it. it\<lparr>status := ''failed''\<rparr>)
       (upd_item i (\<lambda>it. it\<lparr>error_message := last_error\<rparr>) m)"

text \<open>
  The loop of \<^verbatim>\<open>_fetch_metadata_for_item\<close>, a recursion on the number of
  iterations left.
\<close>

fun fetch_metadata_loop ::
  "(int \<Rightarrow> meta_attempt_env) \<Rightarrow> nat \<Rightarrow> nat \<Rightarrow> int \<Rightarrow> rat \<Rightarrow> string \<Rightarrow> BulkDownloadManager \<Rightarrow>
     bool \<times> BulkDownloadManager" where
  "fetch_metadata_loop env i 0 attempt retry_delay last_error m =
     (False, metadata_failed i last_error m)"
| "fetch_metadata_loop env i (Suc left) attempt retry_delay last_error m =
     (if meta_stop (env attempt) then (False, m)
      else
        (case try_fetch (env attempt) i m of
           (None, m1) \<Rightarrow>
             (True, emit_progress_update
                      (upd_tracker (\<lambda>t. t\<lparr>total_tracks := total_tracks t +
                                                  tracks_count (bulk_items m1 ! i)\<rparr>) m1))
         | (Some x, m1) \<Rightarrow>
             (let last_error' =
                    (case http_status x of
                       Some code \<Rightarrow> ''HTTP Error '' @ py_str_int code @ '': '' @ exn_str x
                     | None \<Rightarrow> if is_invalid_url x then ''Invalid Spotify URL: '' @ exn_str x
                               else exn_str x);
                  leaves_loop =
                    (case http_status x of
                       Some code \<Rightarrow> \<not> (code = 404 \<and> retry_404_enabled (config m1))
                     | None \<Rightarrow> is_invalid_url x)
              in if leaves_loop then (False, metadata_failed i last_error' m1)
                 else if attempt < MAX_METADATA_RETRIES \<and> \<not> meta_stop_sleep (env attempt) then
                   fetch_metadata_loop env i left (attempt + 1)
                     (min (retry_delay * BACKOFF_MULTIPLIER) MAX_RETRY_DELAY) last_error'
                     (perform [Sleep retry_delay] m1)
                 else fetch_metadata_loop env i left (attempt + 1) retry_delay last_error' m1)))"

definition fetch_metadata_for_item ::
  "(int \<Rightarrow> meta_attempt_env) \<Rightarrow> nat \<Rightarrow> BulkDownloadManager \<Rightarrow> bool \<times> BulkDownloadManager" where
  "fetch_metadata_for_item env i m =
     fetch_metadata_loop env i (nat MAX_METADATA_RETRIES) 1 INITIAL_RETRY_DELAY [] m"

subsection \<open>The tracks of one item\<close>

text \<open>
  \<^verbatim>\<open>BulkDownloadManager._prepare_output_directory\<close>; \<open>x\<close> is what \<^verbatim>\<open>os.makedirs\<close>
  raises.
\<close>

definition prepare_output_directory ::
  "exn option \<Rightarrow> BulkConfiguration \<Rightarrow> BulkItem \<Rightarrow> string outcome \<times> effect list" where
  "prepare_output_directory x cfg item =
     (if item_type item = ''album'' \<or> item_type item = ''playlist'' then
        (let output = path_join (output_directory cfg) (sanitize (item_title item))
         in case x of
              None \<Rightarrow> (Returns output, [Makedirs output])
            | Some e \<Rightarrow> (Raises e, [Makedirs output]))
      else (Returns (output_directory cfg), []))"

text \<open>
  What the iteration for one track observes: the stop flag at the top of the
  loop, and the attempts of the download.
\<close>

record track_env =
  stop_before_track :: bool
  attempts :: "int \<Rightarrow> attempt_env"

text \<open>The two branches after the download of a track (lines 445 to 465).\<close>

definition track_succeeded :: "nat \<Rightarrow> BulkDownloadManager \<Rightarrow> BulkDownloadManager" where
  "track_succeeded i m =
     upd_tracker (\<lambda>t. t\<lparr>downloaded_tracks := downloaded_tracks t + 1\<rparr>)
       (upd_item i (\<lambda>it. it\<lparr>downloaded_count := downloaded_count it + 1\<rparr>) m)"

definition track_failed :: "nat \<Rightarrow> Track \<Rightarrow> string \<Rightarrow> BulkDownloadManager \<Rightarrow> BulkDownloadManager" where
  "track_failed i track error_msg m =
     upd_tracker (\<lambda>t. t\<lparr>tracker_failed_tracks := tracker_failed_tracks t + 1\<rparr>)
       (upd_item i (\<lambda>it. it\<lparr>failed_tracks :=
                              failed_tracks it @ [(title track, artists track, error_msg)]\<rparr>) m)"

text \<open>
  The loop of \<^verbatim>\<open>_download_tracks_for_item\<close> over the tracks that are left; \<open>k\<close>
  is the position of the track at the head. The result is the exception that
  leaves the loop, if any, and the state.
\<close>

fun download_tracks_loop ::
  "(nat \<Rightarrow> track_env) \<Rightarrow> nat \<Rightarrow> nat \<Rightarrow> Track list \<Rightarrow> BulkDownloadManager \<Rightarrow>
     exn option \<times> BulkDownloadManager" where
  "download_tracks_loop env i k [] m = (None, m)"
| "download_tracks_loop env i k (track # rest) m =
     (if stop_before_track (env k) then (None, m)
      else
        (case download_single_track_with_retry (config m) (attempts (env k)) track
                (bulk_items m ! i) of
           (Raises x, effs) \<Rightarrow> (Some x, perform effs m)
         | (Returns (success, error_msg), effs) \<Rightarrow>
             download_tracks_loop env i (Suc k) rest
               (emit_progress_update
                  (if success then track_succeeded i (perform effs m)
                   else track_failed i track error_msg (perform effs m)))))"

definition download_tracks_for_item ::
  "(nat \<Rightarrow> track_env) \<Rightarrow> nat \<Rightarrow> BulkDownloadManager \<Rightarrow> exn option \<times> BulkDownloadManager" where
  "download_tracks_for_item env i m =
     (if \<not> downloader_ready m then (Some (Exception ''No downloader available''), m)
      else download_tracks_loop env i 0 (tracks (bulk_items m ! i)) m)"

subsection \<open>One item, and the run\<close>

record item_env =
  stop_before_item :: bool
  metadata_attempts :: "int \<Rightarrow> meta_attempt_env"
  makedirs_exn :: "exn option"
  track_envs :: "nat \<Rightarrow> track_env"

text \<open>The \<^verbatim>\<open>except\<close> clause of \<^verbatim>\<open>_process_single_url\<close>.\<close>

definition item_raised :: "nat \<Rightarrow> exn \<Rightarrow> BulkDownloadManager \<Rightarrow> BulkDownloadManager" where
  "item_raised i x m =
     (let m' = upd_item i (\<lambda>it. it\<lparr>error_message := exn_str x\<rparr>)
                 (upd_item i (\<lambda>it. it\<lparr>status := ''failed''\<rparr>) m)
      in emit (Url_completed (line_number (bulk_items m' ! i)) False (''Error: '' @ exn_str x)) m')"

text \<open>Step 4 of \<^verbatim>\<open>_process_single_url\<close> (lines 254 to 259).\<close>

definition item_finished :: "nat \<Rightarrow> BulkDownloadManager \<Rightarrow> BulkDownloadManager" where
  "item_finished i m =
     (let item = bulk_items m ! i;
          counts = py_str_int (downloaded_count item) @ ''/'' @ py_str_int (tracks_count item) @
                   '' tracks''
      in if length (failed_tracks item) = 0 then
           emit (Url_completed (line_number item) True (''Completed: '' @ counts))
             (upd_item i (\<lambda>it. it\<lparr>status := ''completed''\<rparr>) m)
         else
           emit (Url_completed (line_number item) False
                   (''Completed with errors: '' @ counts @ '', '' @
                    py_str_int (int (length (failed_tracks item))) @ '' failed''))
             (upd_item i (\<lambda>it. it\<lparr>status := ''completed_with_errors''\<rparr>) m))"

text \<open>\<^verbatim>\<open>BulkDownloadManager._process_single_url\<close>, for the item at position \<open>i\<close>.\<close>

definition process_single_url :: "item_env \<Rightarrow> nat \<Rightarrow> BulkDownloadManager \<Rightarrow> BulkDownloadManager" where
  "process_single_url env i m =
     (case fetch_metadata_for_item (metadata_attempts env) i m of
        (False, m1) \<Rightarrow> m1
      | (True, m1) \<Rightarrow>
          (case prepare_output_directory (makedirs_exn env) (config m1) (bulk_items m1 ! i) of
             (Raises x, effs) \<Rightarrow> item_raised i x (perform effs m1)
           | (Returns p, effs) \<Rightarrow>
               (case download_tracks_for_item (track_envs env) i
                       (upd_item i (\<lambda>it. it\<lparr>output_path := p\<rparr>) (perform effs m1)) of
                  (Some x, m2) \<Rightarrow> item_raised i x m2
                | (None, m2) \<Rightarrow> item_finished i m2)))"

text \<open>
  The loop of \<^verbatim>\<open>run\<close> over \<^verbatim>\<open>enumerate(self.bulk_items)\<close>: \<open>i\<close> is the position of
  the next item and \<open>left\<close> the number of items that are left.
\<close>

fun run_loop :: "(nat \<Rightarrow> item_env) \<Rightarrow> nat \<Rightarrow> nat \<Rightarrow> BulkDownloadManager \<Rightarrow> BulkDownloadManager" where
  "run_loop env i 0 m = m"
| "run_loop env i (Suc left) m =
     (if stop_before_item (env i) then m
      else run_loop env (Suc i) left
             (process_single_url (env i) i
                (emit_progress_update
                   (upd_tracker (\<lambda>t. t\<lparr>current_url_index := int i\<rparr>) m))))"

record run_env =
  file_read :: "string list outcome"
  clock_at_start :: rat
  init_exn :: "exn option"
  item_envs :: "nat \<Rightarrow> item_env"

text \<open>\<^verbatim>\<open>BulkDownloadManager.run\<close>, on a manager as \<^verbatim>\<open>__init__\<close> builds it.\<close>

definition run :: "run_env \<Rightarrow> BulkConfiguration \<Rightarrow> BulkDownloadManager" where
  "run env cfg =
     (case load_urls_from_file (file_read env) (new_BulkDownloadManager cfg) of
        (False, m) \<Rightarrow> m
      | (True, m) \<Rightarrow>
          (let n = int (length (bulk_items m));
               m1 = upd_tracker (start_tracking n (clock_at_start env)) m;
               m2 = emit (Bulk_started n) m1;
               m3 = initialize_downloaders (init_exn env) m2;
               m4 = run_loop (item_envs env) 0 (length (bulk_items m3)) m3
           in handle_completion m4))"

section \<open>The download worker of the main window\<close>

text \<open>
  \<^verbatim>\<open>DownloadWorker\<close> of \<^verbatim>\<open>SpotiFLAC.py\<close>. Its fields carry the prefix \<open>dw_\<close> where the
  name is taken already; the fields that \<^verbatim>\<open>run\<close> does not read are left out. The
  \<^verbatim>\<open>progress\<close> signal is logged with its text, without its percentage.
\<close>

record DownloadWorker =
  dw_tracks :: "PlayerTrack list"
  outpath :: string
  is_album :: bool
  is_playlist :: bool
  dw_filename_format :: string
  dw_use_track_numbers :: bool
  dw_use_album_subfolders :: bool
  dw_service :: string
  dw_cache_dir :: "string option"
  dw_failed_tracks :: "(string \<times> string \<times> string) list"
  dw_log :: "effect list"

text \<open>
  What the iteration for one track observes: the environment of the download
  itself (its \<open>stop_flag\<close> is the flag as read before the track is started, its
  \<open>copy_exn\<close> what the copy after a failed rename raises), what \<^verbatim>\<open>os.makedirs\<close>
  raises, what the copy from the cache raises, the text of the downloader's
  result, and the stop flag as read after the download.
\<close>

record dw_env =
  download_env :: attempt_env
  dw_makedirs_exn :: "exn option"
  cache_copy_exn :: "exn option"
  result_text :: string
  stop_after_download :: bool

text \<open>\<^verbatim>\<open>str.isalnum\<close> on the code points below 256, and \<^verbatim>\<open>str.rstrip()\<close>.\<close>

definition py_isalnum :: "char \<Rightarrow> bool" where
  "py_isalnum c =
     (let n = (of_char c :: nat)
      in (48 \<le> n \<and> n \<le> 57) \<or> (65 \<le> n \<and> n \<le> 90) \<or> (97 \<le> n \<and> n \<le> 122) \<or>
         n = 170 \<or> n = 178 \<or> n = 179 \<or> n = 181 \<or> n = 185 \<or> n = 186 \<or>
         (188 \<le> n \<and> n \<le> 190) \<or> (192 \<le> n \<and> n \<le> 214) \<or> (216 \<le> n \<and> n \<le> 246) \<or>
         248 \<le> n)"

definition rstrip :: "string \<Rightarrow> string" where
  "rstrip s = rev (dropWhile py_isspace (rev s))"

definition deezer_safe :: "string \<Rightarrow> string" where
  "deezer_safe s =
     rstrip (filter (\<lambda>c. py_isalnum c \<or> c = CHR '' '' \<or> c = CHR ''-'' \<or> c = CHR ''_'') s)"

text \<open>\<^verbatim>\<open>DownloadWorker.get_formatted_filename\<close>\<close>

definition dw_get_formatted_filename :: "DownloadWorker \<Rightarrow> PlayerTrack \<Rightarrow> string" where
  "dw_get_formatted_filename w track =
     sanitize
       (if dw_filename_format w = ''artist_title''
          then artists track @ '' - '' @ title track @ ''.flac''
        else if dw_filename_format w = ''title_only''
          then title track @ ''.flac''
        else title track @ '' - '' @ artists track @ ''.flac'')"

definition in_album_folder :: "DownloadWorker \<Rightarrow> bool" where
  "in_album_folder w = (is_playlist w \<and> dw_use_album_subfolders w)"

definition track_outpath :: "DownloadWorker \<Rightarrow> PlayerTrack \<Rightarrow> string" where
  "track_outpath w track =
     (if in_album_folder w then path_join (outpath w) (sanitize (album track)) else outpath w)"

definition new_filename :: "DownloadWorker \<Rightarrow> PlayerTrack \<Rightarrow> string" where
  "new_filename w track =
     sanitize
       (if (is_album w \<or> in_album_folder w) \<and> dw_use_track_numbers w
          then format_02d (track_number track) @ '' - '' @ dw_get_formatted_filename w track
        else dw_get_formatted_filename w track)"

definition new_filepath :: "DownloadWorker \<Rightarrow> PlayerTrack \<Rightarrow> string" where
  "new_filepath w track = path_join (track_outpath w track) (new_filename w track)"

definition name_of :: "PlayerTrack \<Rightarrow> string" where
  "name_of track = title track @ '' - '' @ artists track"

definition dw_perform :: "effect list \<Rightarrow> DownloadWorker \<Rightarrow> DownloadWorker" where
  "dw_perform effs w = w\<lparr>dw_log := dw_log w @ effs\<rparr>"

definition say :: "string \<Rightarrow> DownloadWorker \<Rightarrow> DownloadWorker" where
  "say msg w = dw_perform [Emit (Progress msg)] w"

text \<open>
  \<^verbatim>\<open>str(v)\<close> for a result of the downloader; the text of a dictionary is given by
  the environment.
\<close>

definition py_text :: "dw_env \<Rightarrow> pyval \<Rightarrow> string" where
  "py_text e v =
     (case v of
        PyNone \<Rightarrow> ''None''
      | PyStr p \<Rightarrow> p
      | PyBool b \<Rightarrow> (if b then ''True'' else ''False'')
      | PyDict success err st \<Rightarrow> result_text e)"

text \<open>The \<^verbatim>\<open>except\<close> clause of the iteration (lines 473 to 477).\<close>

definition dw_failed :: "PlayerTrack \<Rightarrow> string \<Rightarrow> DownloadWorker \<Rightarrow> DownloadWorker" where
  "dw_failed track msg w =
     say (''Failed to download: '' @ name_of track @ [CHR 0x0A] @ ''Error: '' @ msg)
       (w\<lparr>dw_failed_tracks := dw_failed_tracks w @ [(title track, artists track, msg)]\<rparr>)"

text \<open>A track without ISRC (lines 327 to 330, 344 to 347 and 378 to 381).\<close>

definition dw_no_isrc :: "PlayerTrack \<Rightarrow> DownloadWorker \<Rightarrow> DownloadWorker" where
  "dw_no_isrc track w =
     (say (''No ISRC found for track: '' @ title track @ ''. Skipping.'') w)
       \<lparr>dw_failed_tracks := dw_failed_tracks w @ [(title track, artists track, ''No ISRC available'')]\<rparr>"

text \<open>
  How an iteration ends: the loop goes on with the next track, or \<^verbatim>\<open>run\<close>
  returns.
\<close>

datatype flow = Next_track | Return_from_run

text \<open>
  What the branch of the service yields: the value bound to \<^verbatim>\<open>downloaded_file\<close>,
  or the way the iteration ends there.
\<close>

datatype fetched = Downloaded_file pyval | Ends flow | Fetch_raises exn

definition dw_qobuz ::
  "dw_env \<Rightarrow> PlayerTrack \<Rightarrow> string \<Rightarrow> DownloadWorker \<Rightarrow> fetched \<times> DownloadWorker" where
  "dw_qobuz e track dir w =
     (if isrc track = [] then (Ends Next_track, dw_no_isrc track w)
      else
        (let w1 = dw_perform [Adapter_call (Qobuz_download (isrc track) dir)]
                    (say (''Getting track from Qobuz with ISRC: '' @ isrc track) w)
         in case adapter (download_env e) of
              Raises x \<Rightarrow> (Fetch_raises x, w1)
            | Returns r \<Rightarrow> (Downloaded_file r, w1)))"

definition dw_deezer ::
  "dw_env \<Rightarrow> PlayerTrack \<Rightarrow> string \<Rightarrow> DownloadWorker \<Rightarrow> fetched \<times> DownloadWorker" where
  "dw_deezer e track dir w =
     (if isrc track = [] then (Ends Next_track, dw_no_isrc track w)
      else
        (let w1 = dw_perform [Adapter_call (Deezer_download_by_isrc (isrc track) dir)]
                    (say (''Downloading from Deezer with ISRC: '' @ isrc track) w)
         in case adapter (download_env e) of
              Raises x \<Rightarrow> (Fetch_raises x, w1)
            | Returns success \<Rightarrow>
                (if truthy success then
                   (let expected = path_join dir
                          (deezer_safe (artists track) @ '' - '' @ deezer_safe (title track) @ ''.flac'')
                    in if path_exists (fs_after (download_env e)) expected
                         then (Downloaded_file (PyStr expected), w1)
                       else (case glob_newest (download_env e) of
                               Some p \<Rightarrow> (Downloaded_file (PyStr p), w1)
                             | None \<Rightarrow> (Fetch_raises (Exception ''Downloaded file not found''), w1)))
                 else (Fetch_raises (Exception ''Deezer download failed''), w1))))"

definition dw_tidal_result ::
  "dw_env \<Rightarrow> PlayerTrack \<Rightarrow> pyval \<Rightarrow> DownloadWorker \<Rightarrow> fetched \<times> DownloadWorker" where
  "dw_tidal_result e track r w =
     (let unexpected = Fetch_raises (Exception
            (''Tidal download failed or returned unexpected result: '' @ py_text e r))
      in case r of
           PyStr p \<Rightarrow>
             (if path_exists (fs_after (download_env e)) p then (Downloaded_file (PyStr p), w)
              else (unexpected, w))
         | PyDict success err st \<Rightarrow>
             (if success = Some False \<and> err = Some ''Download stopped by user''
                then (Ends Return_from_run, say (''Download stopped by user for: '' @ title track) w)
              else if success = Some False
                then (Fetch_raises (Exception (case err of Some m \<Rightarrow> m
                                               | None \<Rightarrow> ''Tidal download failed'')), w)
              else if st = Some ''all_skipped'' \<or> st = Some ''skipped_exists''
                then (Downloaded_file (PyStr (new_filepath w track)),
                      say (''File already exists or skipped: '' @ new_filename w track) w)
              else (unexpected, w))
         | _ \<Rightarrow> (unexpected, w))"

definition dw_tidal ::
  "dw_env \<Rightarrow> PlayerTrack \<Rightarrow> string \<Rightarrow> DownloadWorker \<Rightarrow> fetched \<times> DownloadWorker" where
  "dw_tidal e track dir w =
     (if isrc track = [] then (Ends Next_track, dw_no_isrc track w)
      else
        (let w1 = dw_perform [Adapter_call (Tidal_download (title track @ '' '' @ artists track)
                                              (isrc track) dir)]
                    (say (''Searching and downloading from Tidal for ISRC: '' @ isrc track @
                          '' - '' @ title track @ '' - '' @ artists track) w)
         in case adapter (download_env e) of
              Raises x \<Rightarrow> (Fetch_raises x, w1)
            | Returns r \<Rightarrow> dw_tidal_result e track r w1))"

text \<open>
  The last branch, for a service name that is none of the three: the call of
  \<^verbatim>\<open>get_track_info\<close> and the download are one call of the downloader here.
\<close>

definition dw_other ::
  "dw_env \<Rightarrow> PlayerTrack \<Rightarrow> string \<Rightarrow> DownloadWorker \<Rightarrow> fetched \<times> DownloadWorker" where
  "dw_other e track dir w =
     (let w1 = dw_perform [Adapter_call (Generic_download (track_id track) dir)]
                 (say (''Getting track info for ID: '' @ track_id track @ '' from '' @ dw_service w) w)
      in case adapter (download_env e) of
           Raises x \<Rightarrow> (Fetch_raises x, w1)
         | Returns r \<Rightarrow>
             (Downloaded_file r, say ''Track info received, starting download process'' w1))"

text \<open>The lines after the download (445 to 472), for the value of \<^verbatim>\<open>downloaded_file\<close>.\<close>

definition dw_place ::
  "dw_env \<Rightarrow> PlayerTrack \<Rightarrow> string \<Rightarrow> string \<Rightarrow> pyval \<Rightarrow> DownloadWorker \<Rightarrow> flow \<times> DownloadWorker" where
  "dw_place e track name path downloaded w =
     (let done = say (''Successfully downloaded: '' @ name_of track);
          missing = dw_failed track (''Download failed or file not found: '' @ py_text e downloaded)
      in if stop_after_download e then (Return_from_run, w)
         else if downloaded = PyStr path then
           (Next_track, say (''Skipped: '' @ name_of track) (say (''File already exists: '' @ name) w))
         else
           (case downloaded of
              PyStr p \<Rightarrow>
                (if p \<noteq> [] \<and> path_exists (fs_after (download_env e)) p then
                   (case rename_exn (download_env e) of
                      None \<Rightarrow> (Next_track, done (say (''File renamed to: '' @ name)
                                                   (dw_perform [Rename p path] w)))
                    | Some x \<Rightarrow>
                        (if is_OSError x then
                           (let w1 = say (''Warning: Could not rename file '' @ p @ '' to '' @ path @
                                          '': '' @ exn_str x) (dw_perform [Rename p path] w)
                            in case copy_exn (download_env e) of
                                 None \<Rightarrow> (Next_track, done (say (''File copied to: '' @ name)
                                                (dw_perform [Copy2 p path, Remove p] w1)))
                               | Some y \<Rightarrow>
                                   (if is_OSError y
                                      then (Next_track, done (dw_perform [Copy2 p path] w1))
                                    else (Next_track,
                                          dw_failed track (exn_str y) (dw_perform [Copy2 p path] w1))))
                         else (Next_track, dw_failed track (exn_str x) (dw_perform [Rename p path] w))))
                 else (Next_track, missing w))
            | _ \<Rightarrow> (Next_track, missing w)))"

text \<open>
  The body of the loop of \<^verbatim>\<open>DownloadWorker.run\<close> for the track at position \<open>i\<close> of
  \<open>n\<close> (lines 281 to 477).
\<close>

definition dw_iteration ::
  "dw_env \<Rightarrow> nat \<Rightarrow> nat \<Rightarrow> PlayerTrack \<Rightarrow> DownloadWorker \<Rightarrow> flow \<times> DownloadWorker" where
  "dw_iteration e i n track w =
     (if stop_flag (download_env e) then (Return_from_run, w)
      else
        (let w1 = say (''Starting download ('' @ py_str_int (int i + 1) @ ''/'' @ py_str_int (int n) @
                       ''): '' @ name_of track) w;
             dir = track_outpath w track;
             name = new_filename w track;
             path = new_filepath w track;
             w2 = (if in_album_folder w then dw_perform [Makedirs dir] w1 else w1)
         in if in_album_folder w \<and> dw_makedirs_exn e \<noteq> None
              then (Next_track,
                    dw_failed track (case dw_makedirs_exn e of Some x \<Rightarrow> exn_str x | None \<Rightarrow> []) w2)
            else if path_exists (fs_check (download_env e)) path \<and>
                    getsize (fs_check (download_env e)) path > 0
              then (Next_track,
                    say (''Skipped: '' @ name_of track)
                      (say (''File already exists: '' @ name @ ''. Skipping download.'') w2))
            else
              (let from_cache =
                     (case dw_cache_dir w of None \<Rightarrow> False | Some d \<Rightarrow> d \<noteq> []) \<and>
                     cached_file track \<noteq> [] \<and>
                     path_exists (fs_check (download_env e)) (cached_file track);
                   w3 = (if from_cache
                           then dw_perform [Copy2 (cached_file track) path]
                                  (say (''Using cached file for: '' @ title track) w2)
                         else w2)
               in if from_cache \<and> cache_copy_exn e = None
                    then (Next_track,
                          say (''Successfully copied from cache: '' @ name_of track) w3)
                  else
                    (let w4 = (if from_cache
                                 then say (''Failed to copy from cache, downloading: '' @
                                           (case cache_copy_exn e of Some x \<Rightarrow> exn_str x
                                            | None \<Rightarrow> [])) w3
                               else w3)
                     in case (if dw_service w = ''qobuz'' then dw_qobuz e track dir w4
                              else if dw_service w = ''deezer'' then dw_deezer e track dir w4
                              else if dw_service w = ''tidal'' then dw_tidal e track dir w4
                              else dw_other e track dir w4) of
                          (Ends f, w5) \<Rightarrow> (f, w5)
                        | (Fetch_raises x, w5) \<Rightarrow> (Next_track, dw_failed track (exn_str x) w5)
                        | (Downloaded_file d, w5) \<Rightarrow> dw_place e track name path d w5))))"

text \<open>The loop of \<^verbatim>\<open>DownloadWorker.run\<close> over \<^verbatim>\<open>enumerate(self.tracks)\<close>.\<close>

fun dw_loop ::
  "(nat \<Rightarrow> dw_env) \<Rightarrow> nat \<Rightarrow> nat \<Rightarrow> PlayerTrack list \<Rightarrow> DownloadWorker \<Rightarrow>
     flow \<times> DownloadWorker" where
  "dw_loop env i n [] w = (Next_track, w)"
| "dw_loop env i n (track # rest) w =
     (case dw_iteration (env i) i n track w of
        (Return_from_run, w') \<Rightarrow> (Return_from_run, w')
      | (Next_track, w') \<Rightarrow> dw_loop env (Suc i) n rest w')"

text \<open>
  \<^verbatim>\<open>DownloadWorker.run\<close>: \<open>init\<close> is what the construction of the downloader
  raises, \<open>stopped\<close> the stop flag as read after the loop.
\<close>

definition dw_run :: "exn option \<Rightarrow> (nat \<Rightarrow> dw_env) \<Rightarrow> bool \<Rightarrow> DownloadWorker \<Rightarrow> DownloadWorker" where
  "dw_run init env stopped w =
     (case init of
        Some x \<Rightarrow> dw_perform [Emit (Finished False (exn_str x) (dw_failed_tracks w))] w
      | None \<Rightarrow>
          (case dw_loop env 0 (length (dw_tracks w)) (dw_tracks w) w of
             (Return_from_run, w') \<Rightarrow> w'
           | (Next_track, w') \<Rightarrow>
               (if stopped then w'
                else dw_perform
                       [Emit (Finished True
                                (''Download completed!'' @
                                 (if dw_failed_tracks w' \<noteq> []
                                    then [CHR 0x0A, CHR 0x0A] @ ''Failed downloads: '' @
                                         py_str_int (int (length (dw_failed_tracks w'))) @ '' tracks''
                                  else []))
                                (dw_failed_tracks w'))] w')))"

section \<open>Notions used in the statements\<close>


text \<open>The delays of \<open>n\<close> consecutive retries that start at \<open>d\<close>.\<close>

fun backoff :: "rat \<Rightarrow> nat \<Rightarrow> rat list" where
  "backoff d 0 = []"
| "backoff d (Suc n) = d # backoff (min (d * (3 / 2)) 30) n"





text \<open>
  A line of the batch file that \<^verbatim>\<open>_load_urls_from_file\<close> takes: after \<^verbatim>\<open>strip()\<close> it
  is not empty, does not start with \<^verbatim>\<open>#\<close> and contains \<^verbatim>\<open>spotify.com\<close>.
\<close>

definition accepted_line :: "string \<Rightarrow> bool" where
  "accepted_line line =
     (strip line \<noteq> [] \<and> \<not> startswith (strip line) ''#'' \<and> contains ''spotify.com'' (strip line))"

text \<open>
  The tracks of an item that are accounted for, and the bound on them. \<open>all_ok\<close>
  says that the bound holds for every item of every value that the list of
  items has taken, and of its present value.
\<close>

definition done_count :: "BulkItem \<Rightarrow> int" where
  "done_count it = downloaded_count it + int (length (failed_tracks it))"

definition item_inv :: "BulkItem \<Rightarrow> bool" where
  "item_inv it = (downloaded_count it + int (length (failed_tracks it)) \<le> tracks_count it)"

definition all_ok :: "BulkDownloadManager \<Rightarrow> bool" where
  "all_ok m = ((\<forall>its \<in> set (history m). \<forall>it \<in> set its. item_inv it) \<and>
               (\<forall>it \<in> set (bulk_items m). item_inv it))"

text \<open>
  The phases of an item. It is \<open>untouched\<close> until its tracks are downloaded: no
  track is counted and its status is not one of the two that end a download.
  It \<open>has_metadata\<close> when, in addition, \<open>tracks_count\<close> is the length of its list
  of tracks. While the loop over its tracks has \<open>c\<close> tracks left, there is \<open>room\<close>
  for them. At the end the item is \<open>settled\<close>: if its status says that the
  download ended and the stop flag was not set before any of its tracks, every
  track is counted.
\<close>

definition zero_counts :: "BulkItem \<Rightarrow> bool" where
  "zero_counts it = (downloaded_count it = 0 \<and> failed_tracks it = [] \<and> 0 \<le> tracks_count it)"

definition untouched :: "BulkItem \<Rightarrow> bool" where
  "untouched it = (zero_counts it \<and> \<not> is_successful it)"

definition has_metadata :: "BulkItem \<Rightarrow> bool" where
  "has_metadata it = (untouched it \<and> tracks_count it = int (length (tracks it)))"

definition room :: "nat \<Rightarrow> BulkItem \<Rightarrow> bool" where
  "room c it = (done_count it + int c \<le> tracks_count it \<and> \<not> is_successful it)"

definition settled :: "(nat \<Rightarrow> item_env) \<Rightarrow> nat \<Rightarrow> BulkItem \<Rightarrow> bool" where
  "settled env j it =
     (is_successful it \<and> (\<forall>k. \<not> stop_before_track (track_envs (env j) k)) \<longrightarrow>
        done_count it = tracks_count it)"

text \<open>
  Assignments to an item that leave its three counters alone, and assignments
  that do not end its download.
\<close>

definition keeps_counts :: "(BulkItem \<Rightarrow> BulkItem) \<Rightarrow> bool" where
  "keeps_counts f = (\<forall>it. downloaded_count (f it) = downloaded_count it \<and>
                          failed_tracks (f it) = failed_tracks it \<and>
                          tracks_count (f it) = tracks_count it)"

definition keeps_status :: "(BulkItem \<Rightarrow> BulkItem) \<Rightarrow> bool" where
  "keeps_status f = (\<forall>it. \<not> is_successful it \<longrightarrow> \<not> is_successful (f it))"

text \<open>
  The bound holds everywhere and the item at position \<open>i\<close> satisfies \<open>P\<close>; and: two
  states differ at most in the item at position \<open>i\<close>.
\<close>

definition at_item :: "nat \<Rightarrow> (BulkItem \<Rightarrow> bool) \<Rightarrow> BulkDownloadManager \<Rightarrow> bool" where
  "at_item i P m = (all_ok m \<and> i < length (bulk_items m) \<and> P (bulk_items m ! i))"

definition only_item :: "nat \<Rightarrow> BulkDownloadManager \<Rightarrow> BulkDownloadManager \<Rightarrow> bool" where
  "only_item i m m' = (length (bulk_items m') = length (bulk_items m) \<and>
     (\<forall>j. j \<noteq> i \<longrightarrow> bulk_items m' ! j = bulk_items m ! j))"

text \<open>The progress dictionaries in a log, in the order of their emission.\<close>

fun progress_events :: "effect list \<Rightarrow> progress_data list" where
  "progress_events [] = []"
| "progress_events (Emit (Bulk_progress pd) # fs) = pd # progress_events fs"
| "progress_events (f # fs) = progress_events fs"

section \<open>Concrete inputs\<close>

definition track1 :: Track where
  "track1 = \<lparr>external_urls = ''https://open.spotify.com/track/abc'', title = ''Song'',
     artists = ''Band'', album = ''LP'', track_number = 1, duration_ms = 1000,
     track_id = ''abc'', isrc = ''US1234567890'', preview_url = []\<rparr>"

definition item1 :: BulkItem where
  "item1 = (new_BulkItem ''https://open.spotify.com/track/abc'' 1)\<lparr>output_path := ''out''\<rparr>"

text \<open>Every attempt finds no file and a downloader call that raises \<open>x\<close>.\<close>

definition env_raise :: "exn \<Rightarrow> int \<Rightarrow> attempt_env" where
  "env_raise x = (\<lambda>n. \<lparr>stop_flag = False, fs_check = (\<lambda>p. None), adapter = Raises x,
     fs_after = (\<lambda>p. None), glob_newest = None, rename_exn = None, copy_exn = None\<rparr>)"

text \<open>A track list of one track for the player, and its cache worker.\<close>

definition ptrack1 :: PlayerTrack where
  "ptrack1 = \<lparr>external_urls = ''https://open.spotify.com/track/abc'', title = ''Song'',
     artists = ''Band'', album = ''LP'', track_number = 1, duration_ms = 1000,
     track_id = ''abc'', isrc = ''US1234567890'', preview_url = [],
     cached_file = [], is_downloading = False, cache_error = []\<rparr>"

definition worker1 :: CacheDownloadWorker where
  "worker1 = new_CacheDownloadWorker [ptrack1] ''cache'' ''tidal''"



text \<open>A second track, and attempts that find the destination file in place.\<close>

definition track2 :: Track where
  "track2 = \<lparr>external_urls = ''https://open.spotify.com/track/def'', title = ''Other'',
     artists = ''Band'', album = ''LP'', track_number = 2, duration_ms = 2000,
     track_id = ''def'', isrc = ''US0987654321'', preview_url = []\<rparr>"

definition env_exists :: "int \<Rightarrow> attempt_env" where
  "env_exists = (\<lambda>n. \<lparr>stop_flag = False, fs_check = (\<lambda>p. Some 100), adapter = Returns PyNone,
     fs_after = (\<lambda>p. Some 100), glob_newest = None, rename_exn = None, copy_exn = None\<rparr>)"

text \<open>
  The stop flag is set when the attempt starts; and: the flag is not set then,
  and the Tidal downloader returns the dictionary that reports the stop.
\<close>

definition env_stopped :: "int \<Rightarrow> attempt_env" where
  "env_stopped = (\<lambda>n. \<lparr>stop_flag = True, fs_check = (\<lambda>p. None), adapter = Returns PyNone,
     fs_after = (\<lambda>p. None), glob_newest = None, rename_exn = None, copy_exn = None\<rparr>)"

definition env_sentinel :: "int \<Rightarrow> attempt_env" where
  "env_sentinel = (\<lambda>n. \<lparr>stop_flag = False, fs_check = (\<lambda>p. None),
     adapter = Returns (PyDict (Some False) (Some ''Download stopped by user'') None),
     fs_after = (\<lambda>p. None), glob_newest = None, rename_exn = None, copy_exn = None\<rparr>)"

text \<open>Metadata: an album of two tracks, and a single track.\<close>

definition album_meta :: "int \<Rightarrow> meta_attempt_env" where
  "album_meta = (\<lambda>a. \<lparr>meta_stop = False,
     meta_result = Meta_parsed ''album'' (Extracted ''LP'' [track1, track2]),
     meta_stop_sleep = False\<rparr>)"

definition track_meta :: "Track \<Rightarrow> int \<Rightarrow> meta_attempt_env" where
  "track_meta t = (\<lambda>a. \<lparr>meta_stop = False,
     meta_result = Meta_parsed ''track'' (Extracted (title t) [t]),
     meta_stop_sleep = False\<rparr>)"

text \<open>Batch files.\<close>

definition album_url :: "string list" where
  "album_url = [''https://open.spotify.com/album/xyz'' @ [CHR 0x0A]]"

definition track_url :: "string list" where
  "track_url = [''https://open.spotify.com/track/abc'' @ [CHR 0x0A]]"

definition two_urls :: "string list" where
  "two_urls = [''https://open.spotify.com/track/abc'' @ [CHR 0x0A],
               ''https://open.spotify.com/track/def'' @ [CHR 0x0A]]"

definition scenario_a :: "string list" where
  "scenario_a = [''https://open.spotify.com/track/abc'' @ [CHR 0x0A],
                 ''# my albums'' @ [CHR 0x0A],
                 [CHR 0x0A],
                 ''  https://open.spotify.com/album/xyz  '' @ [CHR 0x0A]]"

definition no_valid_line :: "string list" where
  "no_valid_line = [''# nothing here'' @ [CHR 0x0A], ''https://example.org/track/abc'']"

text \<open>
  Runs. The album: the file of its first track is in place, the download of the
  second fails with status 500; in \<open>run_album_stopped\<close> the stop flag is set
  before the second track instead.
\<close>

definition run_album :: run_env where
  "run_album = \<lparr>file_read = Returns album_url, clock_at_start = 0, init_exn = None,
     item_envs = (\<lambda>j. \<lparr>stop_before_item = False, metadata_attempts = album_meta,
        makedirs_exn = None,
        track_envs = (\<lambda>k. \<lparr>stop_before_track = False,
           attempts = (if k = 0 then env_exists else env_raise (HTTPError 500 ''Server Error''))\<rparr>)\<rparr>)\<rparr>"

definition run_album_stopped :: run_env where
  "run_album_stopped = \<lparr>file_read = Returns album_url, clock_at_start = 0, init_exn = None,
     item_envs = (\<lambda>j. \<lparr>stop_before_item = False, metadata_attempts = album_meta,
        makedirs_exn = None,
        track_envs = (\<lambda>k. \<lparr>stop_before_track = (k \<noteq> 0), attempts = env_exists\<rparr>)\<rparr>)\<rparr>"

text \<open>One track, downloaded in the environment \<open>env\<close>.\<close>

definition run_track :: "(int \<Rightarrow> attempt_env) \<Rightarrow> run_env" where
  "run_track env = \<lparr>file_read = Returns track_url, clock_at_start = 0, init_exn = None,
     item_envs = (\<lambda>j. \<lparr>stop_before_item = False, metadata_attempts = track_meta track1,
        makedirs_exn = None,
        track_envs = (\<lambda>k. \<lparr>stop_before_track = False, attempts = env\<rparr>)\<rparr>)\<rparr>"

text \<open>Two tracks, one for each line of the file; both files are in place.\<close>

definition run_two_urls :: run_env where
  "run_two_urls = \<lparr>file_read = Returns two_urls, clock_at_start = 0, init_exn = None,
     item_envs = (\<lambda>j. \<lparr>stop_before_item = False,
        metadata_attempts = track_meta (if j = 0 then track1 else track2),
        makedirs_exn = None,
        track_envs = (\<lambda>k. \<lparr>stop_before_track = False, attempts = env_exists\<rparr>)\<rparr>)\<rparr>"

text \<open>
  A download worker for one track whose cached file is empty, and a download
  for the cache that leaves an empty file.
\<close>

definition fs_empty_cached :: filesystem where
  "fs_empty_cached = (\<lambda>p. if p = ''cache/Song - Band.flac'' then Some 0 else None)"

definition ptrack1_cached :: PlayerTrack where
  "ptrack1_cached = \<lparr>external_urls = ''https://open.spotify.com/track/abc'', title = ''Song'',
     artists = ''Band'', album = ''LP'', track_number = 1, duration_ms = 1000,
     track_id = ''abc'', isrc = ''US1234567890'', preview_url = [],
     cached_file = ''cache/Song - Band.flac'', is_downloading = False, cache_error = []\<rparr>"

definition dworker1 :: DownloadWorker where
  "dworker1 = \<lparr>dw_tracks = [ptrack1_cached], outpath = ''out'', is_album = False,
     is_playlist = False, dw_filename_format = ''title_artist'', dw_use_track_numbers = False,
     dw_use_album_subfolders = False, dw_service = ''tidal'', dw_cache_dir = Some ''cache'',
     dw_failed_tracks = [], dw_log = []\<rparr>"

definition dw_env_empty_cached :: dw_env where
  "dw_env_empty_cached = \<lparr>download_env = \<lparr>stop_flag = False, fs_check = fs_empty_cached,
       adapter = Returns (PyStr ''out/Song - Band.flac''), fs_after = (\<lambda>p. Some 100),
       glob_newest = None, rename_exn = None, copy_exn = None\<rparr>,
     dw_makedirs_exn = None, cache_copy_exn = None, result_text = [],
     stop_after_download = False\<rparr>"

definition env_empty_download :: attempt_env where
  "env_empty_download = \<lparr>stop_flag = False, fs_check = (\<lambda>p. None),
     adapter = Returns (PyStr ''cache/tmp.flac''),
     fs_after = (\<lambda>p. if p = ''cache/tmp.flac'' then Some 0 else None),
     glob_newest = None, rename_exn = None, copy_exn = None\<rparr>"

definition dw_env_exists :: dw_env where
  "dw_env_exists = \<lparr>download_env = env_exists 1,
     dw_makedirs_exn = None, cache_copy_exn = None, result_text = [],
     stop_after_download = False\<rparr>"

section \<open>Properties of the bulk per-track download\<close>

lemma finish_download_no_sleep:
  "filter is_sleep (snd (finish_download e fp df effs)) = filter is_sleep effs"
  by (simp add: finish_download_def is_sleep_def split: pyval.splits option.splits)

lemma finish_download_calls:
  "filter is_adapter_call (snd (finish_download e fp df effs)) = filter is_adapter_call effs"
  by (simp add: finish_download_def is_adapter_call_def split: pyval.splits option.splits)

lemma service_no_sleep:
  "filter is_sleep (snd (qobuz_attempt e track item fp)) = []"
  "filter is_sleep (snd (deezer_attempt e track item fp)) = []"
  "filter is_sleep (snd (tidal_attempt e track item fp)) = []"
  by (simp_all add: qobuz_attempt_def deezer_attempt_def tidal_attempt_def tidal_result_def
        finish_download_no_sleep is_sleep_def Let_def split: outcome.splits pyval.splits)

lemma service_calls:
  "length (filter is_adapter_call (snd (qobuz_attempt e track item fp))) \<le> Suc 0"
  "length (filter is_adapter_call (snd (deezer_attempt e track item fp))) \<le> Suc 0"
  "length (filter is_adapter_call (snd (tidal_attempt e track item fp))) \<le> Suc 0"
  by (simp_all add: qobuz_attempt_def deezer_attempt_def tidal_attempt_def tidal_result_def
        finish_download_calls is_adapter_call_def Let_def split: outcome.splits pyval.splits)

lemma attempt_body_no_sleep:
  "filter is_sleep (snd (attempt_body cfg e track item)) = []"
  by (simp add: attempt_body_def Let_def service_no_sleep finish_download_no_sleep)

lemma attempt_body_calls:
  "length (filter is_adapter_call (snd (attempt_body cfg e track item))) \<le> Suc 0"
  by (simp add: attempt_body_def Let_def service_calls finish_download_calls)

lemma not_retried_last: "\<not> retried x n n"
  by (simp add: retried_def split: option.splits)

lemma env_raise_tidal_body:
  "attempt_body (default_config\<lparr>retry_404_enabled := b\<rparr>) (env_raise x n) track1 item1 =
     (Raises x, [Adapter_call (Tidal_download ''Song Band'' ''US1234567890'' ''out'')])"
  by (simp add: attempt_body_def tidal_attempt_def default_config_def env_raise_def track1_def
        item1_def new_BulkItem_def path_exists_def Let_def)

text \<open>
  C9. With \<^verbatim>\<open>retry_404_enabled\<close> false the loop runs for one attempt only: the
  result is that of the first attempt, an exception raised there (an HTTP 404
  as well as any other error) makes the download fail at once, nothing is
  slept and the downloader is called at most once.
\<close>

theorem retry_disabled_single_attempt:
  assumes "\<not> retry_404_enabled cfg"
  shows "download_single_track_with_retry cfg env track item =
           (if stop_flag (env 1) then (Returns (False, ''Stopped by user''), [])
            else case attempt_body cfg (env 1) track item of
                   (Returns r, effs) \<Rightarrow> (Returns r, effs)
                 | (Raises x, effs) \<Rightarrow> (Returns (False, failure_message x), effs))
       \<and> filter is_sleep (snd (download_single_track_with_retry cfg env track item)) = []
       \<and> length (filter is_adapter_call (snd (download_single_track_with_retry cfg env track item))) \<le> 1"
proof -
  have run: "download_single_track_with_retry cfg env track item =
           (if stop_flag (env 1) then (Returns (False, ''Stopped by user''), [])
            else case attempt_body cfg (env 1) track item of
                   (Returns r, effs) \<Rightarrow> (Returns r, effs)
                 | (Raises x, effs) \<Rightarrow> (Returns (False, failure_message x), effs))"
    using assms
    by (simp add: download_single_track_with_retry_def Let_def not_retried_last
          split: prod.splits outcome.splits)
  have eff: "\<not> stop_flag (env 1) \<Longrightarrow>
      snd (download_single_track_with_retry cfg env track item) =
      snd (attempt_body cfg (env 1) track item)"
    unfolding run by (simp split: prod.splits outcome.splits)
  have stopped: "stop_flag (env 1) \<Longrightarrow>
      snd (download_single_track_with_retry cfg env track item) = []"
    unfolding run by simp
  have "filter is_sleep (snd (download_single_track_with_retry cfg env track item)) = []"
    using eff stopped attempt_body_no_sleep [of cfg "env 1" track item]
    by (cases "stop_flag (env 1)") simp_all
  moreover have
    "length (filter is_adapter_call (snd (download_single_track_with_retry cfg env track item))) \<le> 1"
    using eff stopped attempt_body_calls [of cfg "env 1" track item]
    by (cases "stop_flag (env 1)") simp_all
  ultimately show ?thesis using run by simp
qed

theorem retry_disabled_single_attempt_witness:
  "\<not> retry_404_enabled (default_config\<lparr>retry_404_enabled := False\<rparr>) \<and>
   download_single_track_with_retry (default_config\<lparr>retry_404_enabled := False\<rparr>)
       (env_raise (HTTPError 404 ''404 Client Error: Not Found'')) track1 item1 =
     (Returns (False, ''HTTP 404: 404 Client Error: Not Found''),
      [Adapter_call (Tidal_download ''Song Band'' ''US1234567890'' ''out'')])"
  using retry_disabled_single_attempt [of "default_config\<lparr>retry_404_enabled := False\<rparr>"
      "env_raise (HTTPError 404 ''404 Client Error: Not Found'')" track1 item1]
  by (simp add: env_raise_tidal_body failure_message_def py_str_int_def dec_digits.simps
        digit_char_def)
     (simp add: env_raise_def)

section \<open>Retry delays\<close>


lemma sleeps_append [simp]: "sleeps (a @ b) = sleeps a @ sleeps b"
  by (induction a rule: sleeps.induct) simp_all

lemma sleeps_filter: "filter is_sleep fs = [] \<Longrightarrow> sleeps fs = []"
  by (induction fs rule: sleeps.induct) (simp_all add: is_sleep_def)

lemma attempt_body_sleeps: "attempt_body cfg e track item = (r, effs) \<Longrightarrow> sleeps effs = []"
  using attempt_body_no_sleep [of cfg e track item] by (simp add: sleeps_filter)

lemma retry_loop_sleeps:
  "\<exists>n. sleeps (snd (retry_loop cfg env track item m left attempt d)) = backoff d n \<and> (0 < n \<longrightarrow> 0 \<le> d)"
proof (induction left arbitrary: attempt d)
  case 0
  have "sleeps (snd (retry_loop cfg env track item m 0 attempt d)) = backoff d 0" by simp
  then show ?case by blast
next
  case (Suc left)
  obtain r effs where body: "attempt_body cfg (env attempt) track item = (r, effs)"
    by (cases "attempt_body cfg (env attempt) track item")
  have none: "sleeps effs = []" using body by (rule attempt_body_sleeps)
  let ?res = "retry_loop cfg env track item m (Suc left) attempt d"
  show ?case
  proof (cases "\<not> stop_flag (env attempt) \<and> (\<exists>x. r = Raises x \<and> retried x attempt m) \<and> 0 \<le> d")
    case True
    then obtain x where x: "r = Raises x" "retried x attempt m" by blast
    obtain r' effs' where rec: "retry_loop cfg env track item m left (attempt + 1)
                         (min (d * (3 / 2)) 30) = (r', effs')"
      by (cases "retry_loop cfg env track item m left (attempt + 1) (min (d * (3 / 2)) 30)")
    obtain n where n: "sleeps effs' = backoff (min (d * (3 / 2)) 30) n"
      using Suc.IH [of "attempt + 1" "min (d * (3 / 2)) 30"] rec by auto
    have "?res = (r', effs @ [Sleep d] @ effs')"
      using True x body rec by simp
    then have "sleeps (snd ?res) = backoff d (Suc n)"
      using none n by simp
    with True show ?thesis by blast
  next
    case False
    have "sleeps (snd ?res) = backoff d 0"
      using False body none by (auto simp add: Let_def split: prod.splits outcome.splits)
    then show ?thesis by blast
  qed
qed

lemma backoff_length [simp]: "length (backoff d n) = n"
  by (induction n arbitrary: d) simp_all

lemma backoff_hd: "0 < n \<Longrightarrow> hd (backoff d n) = d"
  by (cases n) simp_all

lemma backoff_step: "Suc i < n \<Longrightarrow> backoff d n ! Suc i = min (backoff d n ! i * (3 / 2)) 30"
proof (induction n arbitrary: d i)
  case 0
  then show ?case by simp
next
  case (Suc n)
  show ?case
  proof (cases i)
    case 0
    with Suc.prems show ?thesis by (cases n) simp_all
  next
    case (Suc j)
    with Suc.prems Suc.IH [of j "min (d * (3 / 2)) 30"] show ?thesis by simp
  qed
qed

lemma backoff_bounds:
  "0 \<le> d \<Longrightarrow> d \<le> 30 \<Longrightarrow> i < n \<Longrightarrow> 0 \<le> backoff d n ! i \<and> backoff d n ! i \<le> 30"
proof (induction n arbitrary: d i)
  case 0
  then show ?case by simp
next
  case (Suc n)
  have "0 \<le> min (d * (3 / 2)) 30" "min (d * (3 / 2)) 30 \<le> 30" using Suc.prems by simp_all
  with Suc show ?case by (cases i) simp_all
qed

lemma backoff_mono:
  assumes "0 \<le> d" "d \<le> 30" "Suc i < n"
  shows "backoff d n ! i \<le> backoff d n ! Suc i"
proof -
  have b: "0 \<le> backoff d n ! i \<and> backoff d n ! i \<le> 30"
    using assms by (intro backoff_bounds) simp_all
  have "backoff d n ! Suc i = min (backoff d n ! i * (3 / 2)) 30"
    using assms(3) by (rule backoff_step)
  with b show ?thesis by simp
qed

lemma bulk_backoff_sequence:
  "(let ds = sleeps (snd (download_single_track_with_retry cfg env track item))
    in (ds \<noteq> [] \<longrightarrow> hd ds = of_int (retry_404_delay cfg)) \<and>
       (\<forall>n. Suc n < length ds \<longrightarrow> ds ! Suc n = min (ds ! n * (3 / 2)) 30) \<and>
       (retry_404_delay cfg \<le> 30 \<longrightarrow>
          (\<forall>n. Suc n < length ds \<longrightarrow> ds ! n \<le> ds ! Suc n) \<and> (\<forall>d \<in> set ds. d \<le> 30)))"
proof -
  let ?d = "of_int (retry_404_delay cfg) :: rat"
  obtain n where n: "sleeps (snd (download_single_track_with_retry cfg env track item)) = backoff ?d n"
      and pos: "0 < n \<longrightarrow> 0 \<le> ?d"
    using retry_loop_sleeps unfolding download_single_track_with_retry_def Let_def by blast
  have 1: "backoff ?d n \<noteq> [] \<longrightarrow> hd (backoff ?d n) = ?d"
    by (cases n) simp_all
  have 2: "\<forall>i. Suc i < length (backoff ?d n) \<longrightarrow> backoff ?d n ! Suc i = min (backoff ?d n ! i * (3 / 2)) 30"
    by (simp add: backoff_step)
  have 3: "retry_404_delay cfg \<le> 30 \<longrightarrow>
          (\<forall>i. Suc i < length (backoff ?d n) \<longrightarrow> backoff ?d n ! i \<le> backoff ?d n ! Suc i) \<and>
          (\<forall>d \<in> set (backoff ?d n). d \<le> 30)"
  proof (intro impI conjI allI ballI)
    fix i assume "retry_404_delay cfg \<le> 30" "Suc i < length (backoff ?d n)"
    with pos show "backoff ?d n ! i \<le> backoff ?d n ! Suc i"
      by (intro backoff_mono) simp_all
  next
    fix d assume le: "retry_404_delay cfg \<le> 30" and "d \<in> set (backoff ?d n)"
    then obtain i where i: "i < n" "d = backoff ?d n ! i" by (auto simp: in_set_conv_nth)
    with pos have "0 \<le> ?d" by auto
    with le i show "d \<le> 30" using backoff_bounds [of ?d i n] by simp
  qed
  show ?thesis unfolding Let_def n using 1 2 3 by blast
qed

section \<open>Which errors are retried\<close>




text \<open>The cache worker sleeps for the same two seconds before every retry.\<close>

lemma move_to_cache_sleeps: "sleeps (snd (move_to_cache w e i k f d effs)) = sleeps effs"
  by (simp add: move_to_cache_def split: pyval.splits option.splits)

lemma cache_fetch_sleeps:
  "sleeps (snd (cache_download_qobuz w e t)) = []"
  "sleeps (snd (cache_download_deezer w e t)) = []"
  "sleeps (snd (cache_download_tidal w e t)) = []"
  by (simp_all add: cache_download_qobuz_def cache_download_deezer_def cache_download_tidal_def
        Let_def split: outcome.splits pyval.splits)

lemma perform_download_sleeps: "sleeps (snd (perform_download w e i k)) = []"
proof -
  have *: "sleeps (snd (if cw_service w = ''qobuz'' then cache_download_qobuz w e t
                  else if cw_service w = ''deezer'' then cache_download_deezer w e t
                  else cache_download_tidal w e t)) = []" for t
    by (simp add: cache_fetch_sleeps)
  show ?thesis
    unfolding perform_download_def Let_def
    using * [of "cw_tracks w ! k"]
    by (auto simp add: move_to_cache_sleeps split: prod.splits outcome.splits)
qed

lemma cache_retry_loop_sleeps:
  "\<forall>d \<in> set (sleeps (snd (cache_retry_loop w env i k left attempt))). d = RETRY_DELAY_SECONDS"
proof (induction left arbitrary: attempt)
  case 0
  then show ?case by simp
next
  case (Suc left)
  obtain r effs where pd: "perform_download w (env attempt) i k = (r, effs)"
    by (cases "perform_download w (env attempt) i k")
  have none: "sleeps effs = []" using perform_download_sleeps [of w "env attempt" i k] pd by simp
  obtain w' es where rec: "cache_retry_loop w env i k left (attempt + 1) = (w', es)"
    by (cases "cache_retry_loop w env i k left (attempt + 1)")
  have "\<forall>d \<in> set (sleeps es). d = RETRY_DELAY_SECONDS"
    using Suc.IH [of "attempt + 1"] rec by simp
  then show ?case
    using pd none rec by (cases r) (auto simp add: Let_def)
qed

lemma cache_delay_constant:
  "\<forall>d \<in> set (sleeps (snd (download_with_retry w env i))). d = RETRY_DELAY_SECONDS"
proof (cases "py_index (cw_tracks w) i")
  case None
  then show ?thesis by (simp add: download_with_retry_def)
next
  case (Some k)
  then show ?thesis
    using cache_retry_loop_sleeps [of w env i k "nat MAX_DOWNLOAD_RETRIES" 1]
    by (simp add: download_with_retry_def split: prod.splits)
qed








text \<open>
  C3, as stated, fails in the single-track flow: the cache worker sleeps two
  seconds before the second attempt and two seconds again before the third,
  not \<open>min (2 \<times> 1.5) 30 = 3\<close>.
\<close>

theorem cache_delay_counterexample:
  "sleeps (snd (download_with_retry worker1 (env_raise (Exception ''timed out'')) 0)) = [2, 2] \<and>
   sleeps (snd (download_with_retry worker1 (env_raise (Exception ''timed out'')) 0)) ! 1 \<noteq>
     min (sleeps (snd (download_with_retry worker1 (env_raise (Exception ''timed out'')) 0)) ! 0 * (3 / 2)) 30"
  by code_simp

text \<open>
  C3, amended. In the bulk per-track download the first delay is the configured
  \<^verbatim>\<open>retry_404_delay\<close> (3 by default) and each further delay is the minimum of 1.5
  times the previous one and 30; when the configured delay is at most 30 the
  sequence never decreases and never exceeds 30. In the single-track flow of the
  cache worker every delay is 2 seconds.
\<close>

theorem backoff_delays:
  "(let ds = sleeps (snd (download_single_track_with_retry cfg env track item))
    in (ds \<noteq> [] \<longrightarrow> hd ds = of_int (retry_404_delay cfg)) \<and>
       (\<forall>n. Suc n < length ds \<longrightarrow> ds ! Suc n = min (ds ! n * (3 / 2)) 30) \<and>
       (retry_404_delay cfg \<le> 30 \<longrightarrow>
          (\<forall>n. Suc n < length ds \<longrightarrow> ds ! n \<le> ds ! Suc n) \<and> (\<forall>d \<in> set ds. d \<le> 30))) \<and>
   (\<forall>d \<in> set (sleeps (snd (download_with_retry w cenv i))). d = 2)"
  using bulk_backoff_sequence [of cfg env track item] cache_delay_constant [of w cenv i]
  by (simp add: RETRY_DELAY_SECONDS_def)

text \<open>The delays of a bulk download that meets a 404 ten times, and of the cache worker.\<close>

theorem backoff_delays_witness:
  "retry_404_delay default_config \<le> 30 \<and>
   sleeps (snd (download_single_track_with_retry default_config
     (env_raise (HTTPError 404 ''Not Found'')) track1 item1)) =
     [3, 9 / 2, 27 / 4, 81 / 8, 243 / 16, 729 / 32, 30, 30, 30] \<and>
   sleeps (snd (download_with_retry worker1 (env_raise (Exception ''timed out'')) 0)) = [2, 2]"
proof -
  have le: "retry_404_delay default_config \<le> 30" by (simp add: default_config_def)
  have ds: "sleeps (snd (download_single_track_with_retry default_config
     (env_raise (HTTPError 404 ''Not Found'')) track1 item1)) =
     [3, 9 / 2, 27 / 4, 81 / 8, 243 / 16, 729 / 32, 30, 30, 30]"
    by code_simp
  have cs: "sleeps (snd (download_with_retry worker1 (env_raise (Exception ''timed out'')) 0)) = [2, 2]"
    by code_simp
  show ?thesis
    using backoff_delays [of default_config "env_raise (HTTPError 404 ''Not Found'')" track1 item1
            worker1 "env_raise (Exception ''timed out'')" 0] le ds cs
    by simp
qed

section \<open>The queue of the cache worker\<close>


lemma py_index_update [simp]: "py_index (xs[k := t]) = py_index xs"
  by (rule ext) (simp add: py_index_def)
























section \<open>The batch file\<close>

lemma load_lines_items:
  "n = int j \<Longrightarrow>
   bulk_items (load_lines n lines m) =
     bulk_items m @ map (\<lambda>(k, line). new_BulkItem (strip line) (int k))
                      (filter (\<lambda>(k, line). accepted_line line) (enumerate j lines))"
proof (induction lines arbitrary: n j m)
  case Nil
  then show ?case by simp
next
  case (Cons line rest)
  have next_line: "n + 1 = int (Suc j)" using Cons.prems by simp
  show ?case
  proof (cases "accepted_line line")
    case True
    then have "load_lines n (line # rest) m =
        load_lines (n + 1) rest (set_items (bulk_items m @ [new_BulkItem (strip line) n]) m)"
      by (simp add: accepted_line_def Let_def)
    then show ?thesis
      using True Cons.IH [OF next_line] Cons.prems by (simp add: set_items_def)
  next
    case False
    then have "load_lines n (line # rest) m = load_lines (n + 1) rest m"
      by (auto simp add: accepted_line_def Let_def)
    then show ?thesis
      using False Cons.IH [OF next_line] by simp
  qed
qed

lemma load_lines_rest:
  "config (load_lines n lines m) = config m"
  "progress_tracker (load_lines n lines m) = progress_tracker m"
  "downloader_ready (load_lines n lines m) = downloader_ready m"
  "log (load_lines n lines m) = log m"
  by (induction lines arbitrary: n m) (simp_all add: Let_def set_items_def)

lemma filter_enumerate_empty:
  "(filter (\<lambda>(k, line). P line) (enumerate j lines) = []) = (\<forall>line \<in> set lines. \<not> P line)"
  by (induction lines arbitrary: j) auto

lemma load_lines_history_empty:
  "(\<forall>line \<in> set lines. \<not> accepted_line line) \<Longrightarrow> load_lines n lines m = m"
  by (induction lines arbitrary: n m) (auto simp add: Let_def accepted_line_def)

text \<open>
  C8. The items made from the lines of a batch file are those of the accepted
  lines, in the order of the file, each with the line stripped as its URL and
  the number of the line (counted from 1) as its line number. Loading succeeds
  exactly when some line is accepted. When no line is accepted the run returns
  at once: it emits the error \<^verbatim>\<open>No valid Spotify URLs found in file\<close> and nothing
  else, and has no item.
\<close>

theorem load_urls_accepts_marked_lines:
  "bulk_items (snd (load_urls_from_file (Returns lines) (new_BulkDownloadManager cfg))) =
     map (\<lambda>(k, line). new_BulkItem (strip line) (int k))
       (filter (\<lambda>(k, line). accepted_line line) (enumerate 1 lines)) \<and>
   fst (load_urls_from_file (Returns lines) (new_BulkDownloadManager cfg)) =
     (\<exists>line \<in> set lines. accepted_line line) \<and>
   ((\<forall>line \<in> set lines. \<not> accepted_line line) \<longrightarrow>
      run (env\<lparr>file_read := Returns lines\<rparr>) cfg =
        emit (Error_occurred ''No valid Spotify URLs found in file'') (new_BulkDownloadManager cfg))"
proof -
  let ?m0 = "new_BulkDownloadManager cfg"
  have items: "bulk_items (load_lines 1 lines ?m0) =
     map (\<lambda>(k, line). new_BulkItem (strip line) (int k))
       (filter (\<lambda>(k, line). accepted_line line) (enumerate 1 lines))"
    using load_lines_items [of 1 1 lines ?m0] by (simp add: new_BulkDownloadManager_def)
  have empty: "(bulk_items (load_lines 1 lines ?m0) = []) = (\<forall>line \<in> set lines. \<not> accepted_line line)"
    unfolding items by (simp add: filter_enumerate_empty)
  have 1: "bulk_items (snd (load_urls_from_file (Returns lines) ?m0)) =
     map (\<lambda>(k, line). new_BulkItem (strip line) (int k))
       (filter (\<lambda>(k, line). accepted_line line) (enumerate 1 lines))"
    using items by (simp add: load_urls_from_file_def Let_def emit_def perform_def)
  have 2: "fst (load_urls_from_file (Returns lines) ?m0) = (\<exists>line \<in> set lines. accepted_line line)"
    using empty by (simp add: load_urls_from_file_def Let_def)
  have 3: "run (env\<lparr>file_read := Returns lines\<rparr>) cfg =
        emit (Error_occurred ''No valid Spotify URLs found in file'') ?m0"
    if none: "\<forall>line \<in> set lines. \<not> accepted_line line"
  proof -
    have "load_lines 1 lines ?m0 = ?m0" using none by (rule load_lines_history_empty)
    then show ?thesis
      by (simp add: run_def load_urls_from_file_def Let_def new_BulkDownloadManager_def)
  qed
  show ?thesis using 1 2 3 by blast
qed

text \<open>
  A file of two valid lines, a comment and a blank line gives two items, with
  the line numbers 1 and 4; a file without a valid line gives the error.
\<close>

theorem load_urls_accepts_marked_lines_witness:
  "bulk_items (snd (load_urls_from_file (Returns scenario_a) (new_BulkDownloadManager default_config))) =
     [new_BulkItem ''https://open.spotify.com/track/abc'' 1,
      new_BulkItem ''https://open.spotify.com/album/xyz'' 4] \<and>
   fst (load_urls_from_file (Returns scenario_a) (new_BulkDownloadManager default_config)) \<and>
   filter accepted_line no_valid_line = [] \<and>
   run (run_album\<lparr>file_read := Returns no_valid_line\<rparr>) default_config =
     emit (Error_occurred ''No valid Spotify URLs found in file'')
       (new_BulkDownloadManager default_config) \<and>
   bulk_items (run (run_album\<lparr>file_read := Returns no_valid_line\<rparr>) default_config) = [] \<and>
   \<not> fst (load_urls_from_file (Returns no_valid_line) (new_BulkDownloadManager default_config))"
proof -
  have a: "map (\<lambda>(k, line). new_BulkItem (strip line) (int k))
       (filter (\<lambda>(k, line). accepted_line line) (enumerate 1 scenario_a)) =
     [new_BulkItem ''https://open.spotify.com/track/abc'' 1,
      new_BulkItem ''https://open.spotify.com/album/xyz'' 4]"
    by code_simp
  have some: "\<exists>line \<in> set scenario_a. accepted_line line"
    by code_simp
  have filt: "filter accepted_line no_valid_line = []"
    by code_simp
  then have none: "\<forall>line \<in> set no_valid_line. \<not> accepted_line line"
    by (simp add: filter_empty_conv)
  have empty: "bulk_items (emit (Error_occurred ''No valid Spotify URLs found in file'')
       (new_BulkDownloadManager default_config)) = []"
    by (simp add: emit_def perform_def new_BulkDownloadManager_def)
  show ?thesis
    using load_urls_accepts_marked_lines [of scenario_a default_config]
          load_urls_accepts_marked_lines [of no_valid_line default_config run_album]
          a some filt none empty
    by simp
qed

section \<open>The counts of an item\<close>

text \<open>What the steps of the manager leave as it is.\<close>

lemma perform_fields [simp]:
  "bulk_items (perform effs m) = bulk_items m"
  "history (perform effs m) = history m"
  "config (perform effs m) = config m"
  "downloader_ready (perform effs m) = downloader_ready m"
  "progress_tracker (perform effs m) = progress_tracker m"
  "log (perform effs m) = log m @ effs"
  by (simp_all add: perform_def)

lemma emit_fields [simp]:
  "bulk_items (emit s m) = bulk_items m"
  "history (emit s m) = history m"
  "config (emit s m) = config m"
  "downloader_ready (emit s m) = downloader_ready m"
  "progress_tracker (emit s m) = progress_tracker m"
  "log (emit s m) = log m @ [Emit s]"
  by (simp_all add: emit_def)

lemma emit_progress_update_fields [simp]:
  "bulk_items (emit_progress_update m) = bulk_items m"
  "history (emit_progress_update m) = history m"
  "config (emit_progress_update m) = config m"
  "downloader_ready (emit_progress_update m) = downloader_ready m"
  "progress_tracker (emit_progress_update m) = progress_tracker m"
  by (simp_all add: emit_progress_update_def)

lemma upd_tracker_fields [simp]:
  "bulk_items (upd_tracker f m) = bulk_items m"
  "history (upd_tracker f m) = history m"
  "config (upd_tracker f m) = config m"
  "downloader_ready (upd_tracker f m) = downloader_ready m"
  "progress_tracker (upd_tracker f m) = f (progress_tracker m)"
  "log (upd_tracker f m) = log m"
  by (simp_all add: upd_tracker_def)

lemma upd_item_fields [simp]:
  "bulk_items (upd_item i f m) = (bulk_items m)[i := f (bulk_items m ! i)]"
  "history (upd_item i f m) = history m @ [(bulk_items m)[i := f (bulk_items m ! i)]]"
  "config (upd_item i f m) = config m"
  "downloader_ready (upd_item i f m) = downloader_ready m"
  "progress_tracker (upd_item i f m) = progress_tracker m"
  "log (upd_item i f m) = log m"
  by (simp_all add: upd_item_def set_items_def)

lemma all_ok_frame [simp]:
  "all_ok (perform effs m) = all_ok m"
  "all_ok (emit s m) = all_ok m"
  "all_ok (emit_progress_update m) = all_ok m"
  "all_ok (upd_tracker g m) = all_ok m"
  by (simp_all add: all_ok_def)

lemma all_ok_upd_item:
  assumes "all_ok m" and "i < length (bulk_items m) \<Longrightarrow> item_inv (f (bulk_items m ! i))"
  shows "all_ok (upd_item i f m)"
proof -
  have "\<forall>it \<in> set ((bulk_items m)[i := f (bulk_items m ! i)]). item_inv it"
  proof (cases "i < length (bulk_items m)")
    case True
    then show ?thesis
      using assms set_update_subset_insert [of "bulk_items m" i "f (bulk_items m ! i)"]
      by (auto simp add: all_ok_def)
  next
    case False
    then show ?thesis using assms(1) by (simp add: all_ok_def list_update_beyond)
  qed
  then show ?thesis using assms(1) by (simp add: all_ok_def)
qed

text \<open>Assignments to other fields keep the bound.\<close>

lemma keeps_counts_simps [simp]:
  "keeps_counts (\<lambda>it. it\<lparr>item_type := a\<rparr>)"
  "keeps_counts (\<lambda>it. it\<lparr>item_title := a\<rparr>)"
  "keeps_counts (\<lambda>it. it\<lparr>tracks := ts\<rparr>)"
  "keeps_counts (\<lambda>it. it\<lparr>status := a\<rparr>)"
  "keeps_counts (\<lambda>it. it\<lparr>error_message := a\<rparr>)"
  "keeps_counts (\<lambda>it. it\<lparr>output_path := a\<rparr>)"
  by (simp_all add: keeps_counts_def)

lemma keeps_counts_inv: "keeps_counts f \<Longrightarrow> item_inv (f it) = item_inv it"
  by (simp add: keeps_counts_def item_inv_def)

lemma all_ok_keeps: "all_ok m \<Longrightarrow> keeps_counts f \<Longrightarrow> all_ok (upd_item i f m)"
  by (rule all_ok_upd_item) (auto simp add: keeps_counts_inv all_ok_def)

lemma only_item_refl [simp]: "only_item i m m"
  by (simp add: only_item_def)

lemma only_item_trans: "only_item i m m' \<Longrightarrow> only_item i m' m'' \<Longrightarrow> only_item i m m''"
  by (simp add: only_item_def)

lemma only_item_frame [simp]:
  "only_item i m (perform effs m') = only_item i m m'"
  "only_item i m (emit s m') = only_item i m m'"
  "only_item i m (emit_progress_update m') = only_item i m m'"
  "only_item i m (upd_tracker g m') = only_item i m m'"
  by (simp_all add: only_item_def)

lemma only_item_upd [simp]: "only_item i m (upd_item i f m') = only_item i m m'"
  by (auto simp add: only_item_def)

lemma at_item_frame [simp]:
  "at_item i P (perform effs m) = at_item i P m"
  "at_item i P (emit s m) = at_item i P m"
  "at_item i P (emit_progress_update m) = at_item i P m"
  "at_item i P (upd_tracker g m) = at_item i P m"
  by (simp_all add: at_item_def)

lemma at_item_keeps:
  "at_item i P m \<Longrightarrow> keeps_counts f \<Longrightarrow> (\<And>it. P it \<Longrightarrow> Q (f it)) \<Longrightarrow> at_item i Q (upd_item i f m)"
  by (simp add: at_item_def all_ok_keeps)

lemma keeps_status_simps [simp]:
  "keeps_status (\<lambda>it. it\<lparr>item_type := a\<rparr>)"
  "keeps_status (\<lambda>it. it\<lparr>item_title := a\<rparr>)"
  "keeps_status (\<lambda>it. it\<lparr>tracks := ts\<rparr>)"
  "keeps_status (\<lambda>it. it\<lparr>status := ''failed''\<rparr>)"
  "keeps_status (\<lambda>it. it\<lparr>error_message := a\<rparr>)"
  "keeps_status (\<lambda>it. it\<lparr>output_path := a\<rparr>)"
  "keeps_status (\<lambda>it. it\<lparr>tracks_count := n\<rparr>)"
  "keeps_status (\<lambda>it. it\<lparr>downloaded_count := n\<rparr>)"
  "keeps_status (\<lambda>it. it\<lparr>failed_tracks := fs\<rparr>)"
  by (simp_all add: keeps_status_def is_successful_def)

lemma untouched_keeps: "keeps_counts f \<Longrightarrow> keeps_status f \<Longrightarrow> untouched it \<Longrightarrow> untouched (f it)"
  by (simp add: keeps_counts_def keeps_status_def untouched_def zero_counts_def)

lemma at_item_untouched_keeps:
  "at_item i untouched m \<Longrightarrow> keeps_counts f \<Longrightarrow> keeps_status f \<Longrightarrow>
   at_item i untouched (upd_item i f m)"
  by (rule at_item_keeps [where P = untouched]) (simp_all add: untouched_keeps)

text \<open>Fetching the metadata sets \<open>tracks_count\<close> while no track is counted yet.\<close>

lemma set_tracks_count_has_metadata:
  assumes "at_item i untouched m"
  shows "at_item i has_metadata (set_tracks_count i m)"
proof -
  let ?f = "\<lambda>it. it\<lparr>tracks_count := int (length (tracks it))\<rparr>"
  have "item_inv (?f (bulk_items m ! i))"
    using assms by (simp add: at_item_def untouched_def zero_counts_def item_inv_def)
  then have "all_ok (upd_item i ?f m)" using assms by (intro all_ok_upd_item) (simp_all add: at_item_def)
  then show ?thesis
    using assms
    by (simp add: set_tracks_count_def at_item_def has_metadata_def untouched_def zero_counts_def
          is_successful_def)
qed

lemma has_metadata_untouched: "at_item i has_metadata m \<Longrightarrow> at_item i untouched m"
  by (simp add: at_item_def has_metadata_def)

lemma try_fetch_untouched:
  assumes "at_item i untouched m"
  shows "at_item i untouched (snd (try_fetch e i m))"
    and "fst (try_fetch e i m) = None \<Longrightarrow> at_item i has_metadata (snd (try_fetch e i m))"
    and "only_item i m (snd (try_fetch e i m))"
proof -
  note k = at_item_untouched_keeps [OF _ keeps_counts_simps(1) keeps_status_simps(1)]
    at_item_untouched_keeps [OF _ keeps_counts_simps(2) keeps_status_simps(2)]
    at_item_untouched_keeps [OF _ keeps_counts_simps(3) keeps_status_simps(3)]
  show "at_item i untouched (snd (try_fetch e i m))"
    using assms
    by (auto simp add: try_fetch_def Let_def split: meta_result.splits extraction.splits
          intro!: has_metadata_untouched set_tracks_count_has_metadata k)
  show "at_item i has_metadata (snd (try_fetch e i m))" if "fst (try_fetch e i m) = None"
    using assms that
    by (auto simp add: try_fetch_def Let_def split: meta_result.splits extraction.splits if_splits
          intro!: set_tracks_count_has_metadata k)
  show "only_item i m (snd (try_fetch e i m))"
    by (auto simp add: try_fetch_def Let_def set_tracks_count_def
          split: meta_result.splits extraction.splits)
qed

lemma metadata_failed_untouched:
  "at_item i untouched m \<Longrightarrow> at_item i untouched (metadata_failed i e m)"
  unfolding metadata_failed_def
  by (intro at_item_untouched_keeps) simp_all

lemma metadata_failed_only [simp]: "only_item i m (metadata_failed i e m') = only_item i m m'"
  by (simp add: metadata_failed_def)

lemma fetch_metadata_loop_untouched:
  assumes "at_item i untouched m"
  shows "at_item i untouched (snd (fetch_metadata_loop env i left attempt d le m)) \<and>
         only_item i m (snd (fetch_metadata_loop env i left attempt d le m)) \<and>
         (fst (fetch_metadata_loop env i left attempt d le m) \<longrightarrow>
            at_item i has_metadata (snd (fetch_metadata_loop env i left attempt d le m)))"
  using assms
proof (induction left arbitrary: attempt d le m)
  case 0
  then show ?case by (simp add: metadata_failed_untouched)
next
  case (Suc left)
  obtain x m1 where tf: "try_fetch (env attempt) i m = (x, m1)"
    by (cases "try_fetch (env attempt) i m")
  have m1: "at_item i untouched m1" "only_item i m m1" "x = None \<Longrightarrow> at_item i has_metadata m1"
    using try_fetch_untouched [OF Suc.prems, of "env attempt"] tf by simp_all
  show ?case
  proof (cases "meta_stop (env attempt)")
    case True
    then show ?thesis using Suc.prems by simp
  next
    case False
    show ?thesis
    proof (cases x)
      case None
      then show ?thesis using False tf m1 by (simp add: has_metadata_untouched)
    next
      case (Some e)
      have rec: "at_item i untouched (snd (fetch_metadata_loop env i left a d' l' m')) \<and>
         only_item i m (snd (fetch_metadata_loop env i left a d' l' m')) \<and>
         (fst (fetch_metadata_loop env i left a d' l' m') \<longrightarrow>
            at_item i has_metadata (snd (fetch_metadata_loop env i left a d' l' m')))"
        if "at_item i untouched m'" "only_item i m m'" for a d' l' m'
        using Suc.IH [OF that(1), of a d' l'] that(2) only_item_trans by blast
      show ?thesis
        using False tf Some m1 rec [of m1] rec [of "perform [Sleep d] m1"]
        by (simp add: Let_def metadata_failed_untouched)
    qed
  qed
qed

text \<open>Each track of the loop adds one to exactly one of the two counters.\<close>

lemma has_metadata_room: "at_item i has_metadata m \<Longrightarrow> at_item i (room (length (tracks (bulk_items m ! i)))) m"
  by (simp add: at_item_def has_metadata_def untouched_def zero_counts_def room_def done_count_def)

lemma has_metadata_done: "at_item i has_metadata m \<Longrightarrow> done_count (bulk_items m ! i) = 0"
  by (simp add: at_item_def has_metadata_def untouched_def zero_counts_def done_count_def)

lemma track_succeeded_room:
  assumes "at_item i (room (Suc c)) m"
  shows "at_item i (room c) (track_succeeded i m)"
    and "only_item i m (track_succeeded i m)"
    and "done_count (bulk_items (track_succeeded i m) ! i) = done_count (bulk_items m ! i) + 1"
    and "tracks_count (bulk_items (track_succeeded i m) ! i) = tracks_count (bulk_items m ! i)"
proof -
  let ?f = "\<lambda>it. it\<lparr>downloaded_count := downloaded_count it + 1\<rparr>"
  have "item_inv (?f (bulk_items m ! i))"
    using assms by (simp add: at_item_def room_def item_inv_def done_count_def)
  then have "all_ok (upd_item i ?f m)" using assms by (intro all_ok_upd_item) (simp_all add: at_item_def)
  then show "at_item i (room c) (track_succeeded i m)"
    using assms by (simp add: track_succeeded_def at_item_def room_def done_count_def is_successful_def)
  show "only_item i m (track_succeeded i m)" by (simp add: track_succeeded_def)
  show "done_count (bulk_items (track_succeeded i m) ! i) = done_count (bulk_items m ! i) + 1"
    using assms by (simp add: track_succeeded_def at_item_def done_count_def)
  show "tracks_count (bulk_items (track_succeeded i m) ! i) = tracks_count (bulk_items m ! i)"
    using assms by (simp add: track_succeeded_def at_item_def)
qed

lemma track_failed_room:
  assumes "at_item i (room (Suc c)) m"
  shows "at_item i (room c) (track_failed i t e m)"
    and "only_item i m (track_failed i t e m)"
    and "done_count (bulk_items (track_failed i t e m) ! i) = done_count (bulk_items m ! i) + 1"
    and "tracks_count (bulk_items (track_failed i t e m) ! i) = tracks_count (bulk_items m ! i)"
proof -
  let ?f = "\<lambda>it. it\<lparr>failed_tracks := failed_tracks it @ [(title t, artists t, e)]\<rparr>"
  have "item_inv (?f (bulk_items m ! i))"
    using assms by (simp add: at_item_def room_def item_inv_def done_count_def)
  then have "all_ok (upd_item i ?f m)" using assms by (intro all_ok_upd_item) (simp_all add: at_item_def)
  then show "at_item i (room c) (track_failed i t e m)"
    using assms by (simp add: track_failed_def at_item_def room_def done_count_def is_successful_def)
  show "only_item i m (track_failed i t e m)" by (simp add: track_failed_def)
  show "done_count (bulk_items (track_failed i t e m) ! i) = done_count (bulk_items m ! i) + 1"
    using assms by (simp add: track_failed_def at_item_def done_count_def)
  show "tracks_count (bulk_items (track_failed i t e m) ! i) = tracks_count (bulk_items m ! i)"
    using assms by (simp add: track_failed_def at_item_def)
qed

lemma room_weaken: "at_item i (room (Suc c)) m \<Longrightarrow> at_item i (room 0) m"
  by (simp add: at_item_def room_def)

lemma room_less: "at_item i (room c) m \<Longrightarrow> at_item i (room 0) m"
  by (simp add: at_item_def room_def)

lemma only_item_frame_left [simp]:
  "only_item i (perform effs m) m' = only_item i m m'"
  "only_item i (emit s m) m' = only_item i m m'"
  "only_item i (emit_progress_update m) m' = only_item i m m'"
  "only_item i (upd_tracker g m) m' = only_item i m m'"
  by (simp_all add: only_item_def)

lemma download_tracks_loop_room:
  assumes "at_item i (room (length ts)) m"
  shows "at_item i (room 0) (snd (download_tracks_loop env i k ts m)) \<and>
         only_item i m (snd (download_tracks_loop env i k ts m)) \<and>
         tracks_count (bulk_items (snd (download_tracks_loop env i k ts m)) ! i) =
           tracks_count (bulk_items m ! i) \<and>
         (fst (download_tracks_loop env i k ts m) = None \<and> (\<forall>j. \<not> stop_before_track (env j)) \<longrightarrow>
            done_count (bulk_items (snd (download_tracks_loop env i k ts m)) ! i) =
              done_count (bulk_items m ! i) + int (length ts))"
  using assms
proof (induction ts arbitrary: k m)
  case Nil
  then show ?case by simp
next
  case (Cons track rest)
  obtain r effs where dl: "download_single_track_with_retry (config m) (attempts (env k)) track
                (bulk_items m ! i) = (r, effs)"
    by (cases "download_single_track_with_retry (config m) (attempts (env k)) track (bulk_items m ! i)")
  have start: "at_item i (room (Suc (length rest))) (perform effs m)"
    using Cons.prems by simp
  show ?case
  proof (cases "stop_before_track (env k)")
    case True
    then have "download_tracks_loop env i k (track # rest) m = (None, m)" by simp
    then show ?thesis using True room_less [OF Cons.prems] by auto
  next
    case False
    show ?thesis
    proof (cases r)
      case (Raises x)
      then show ?thesis using False dl room_less [OF Cons.prems] by simp
    next
      case (Returns res)
      obtain success error_msg where res: "res = (success, error_msg)" by (cases res)
      let ?m' = "emit_progress_update
                  (if success then track_succeeded i (perform effs m)
                   else track_failed i track error_msg (perform effs m))"
      have step: "at_item i (room (length rest)) ?m' \<and> only_item i m ?m' \<and>
          done_count (bulk_items ?m' ! i) = done_count (bulk_items m ! i) + 1 \<and>
          tracks_count (bulk_items ?m' ! i) = tracks_count (bulk_items m ! i)"
      proof (cases success)
        case True
        then show ?thesis using track_succeeded_room [OF start] by simp
      next
        case False
        then show ?thesis using track_failed_room [OF start, of track error_msg] by simp
      qed
      have unfold: "download_tracks_loop env i k (track # rest) m =
          download_tracks_loop env i (Suc k) rest ?m'"
        using False dl Returns res by simp
      have ih: "at_item i (room 0) (snd (download_tracks_loop env i (Suc k) rest ?m')) \<and>
         only_item i ?m' (snd (download_tracks_loop env i (Suc k) rest ?m')) \<and>
         tracks_count (bulk_items (snd (download_tracks_loop env i (Suc k) rest ?m')) ! i) =
           tracks_count (bulk_items ?m' ! i) \<and>
         (fst (download_tracks_loop env i (Suc k) rest ?m') = None \<and>
            (\<forall>j. \<not> stop_before_track (env j)) \<longrightarrow>
            done_count (bulk_items (snd (download_tracks_loop env i (Suc k) rest ?m')) ! i) =
              done_count (bulk_items ?m' ! i) + int (length rest))"
        by (rule Cons.IH) (rule step [THEN conjunct1])
      have only: "only_item i m (snd (download_tracks_loop env i (Suc k) rest ?m'))"
        using step ih only_item_trans by blast
      show ?thesis
        unfolding unfold using ih only step by simp
    qed
  qed
qed

text \<open>One item, from its metadata to its final status.\<close>

lemma item_raised_props:
  "all_ok m \<Longrightarrow> all_ok (item_raised i x m)"
  "only_item i m0 (item_raised i x m) = only_item i m0 m"
  "i < length (bulk_items m) \<Longrightarrow> \<not> is_successful (bulk_items (item_raised i x m) ! i)"
  by (simp_all add: item_raised_def Let_def all_ok_keeps is_successful_def)

lemma item_finished_props:
  "all_ok m \<Longrightarrow> all_ok (item_finished i m)"
  "only_item i m0 (item_finished i m) = only_item i m0 m"
  "i < length (bulk_items m) \<Longrightarrow>
     done_count (bulk_items (item_finished i m) ! i) = done_count (bulk_items m ! i) \<and>
     tracks_count (bulk_items (item_finished i m) ! i) = tracks_count (bulk_items m ! i)"
  by (simp_all add: item_finished_def Let_def all_ok_keeps done_count_def)

lemma has_metadata_keeps_path:
  assumes "at_item i has_metadata m"
  shows "at_item i has_metadata (upd_item i (\<lambda>it. it\<lparr>output_path := p\<rparr>) m)"
  using assms
  by (intro at_item_keeps [where P = has_metadata])
     (simp_all add: has_metadata_def untouched_def zero_counts_def is_successful_def)

lemma download_tracks_for_item_has_metadata:
  assumes "at_item i has_metadata m"
  shows "all_ok (snd (download_tracks_for_item env i m)) \<and>
         only_item i m (snd (download_tracks_for_item env i m)) \<and>
         i < length (bulk_items (snd (download_tracks_for_item env i m))) \<and>
         (fst (download_tracks_for_item env i m) = None \<and> (\<forall>j. \<not> stop_before_track (env j)) \<longrightarrow>
            done_count (bulk_items (snd (download_tracks_for_item env i m)) ! i) =
            tracks_count (bulk_items (snd (download_tracks_for_item env i m)) ! i))"
proof (cases "downloader_ready m")
  case False
  then show ?thesis using assms by (simp add: download_tracks_for_item_def at_item_def)
next
  case True
  let ?ts = "tracks (bulk_items m ! i)"
  let ?r = "download_tracks_loop env i 0 ?ts m"
  have loop: "at_item i (room 0) (snd ?r) \<and> only_item i m (snd ?r) \<and>
         tracks_count (bulk_items (snd ?r) ! i) = tracks_count (bulk_items m ! i) \<and>
         (fst ?r = None \<and> (\<forall>j. \<not> stop_before_track (env j)) \<longrightarrow>
            done_count (bulk_items (snd ?r) ! i) = done_count (bulk_items m ! i) + int (length ?ts))"
    by (rule download_tracks_loop_room) (rule has_metadata_room [OF assms])
  have "tracks_count (bulk_items m ! i) = int (length ?ts)"
    using assms by (simp add: at_item_def has_metadata_def)
  with loop has_metadata_done [OF assms] True show ?thesis
    by (simp add: download_tracks_for_item_def at_item_def)
qed

lemma prepare_cases:
  "(\<exists>x effs. prepare_output_directory e cfg item = (Raises x, effs)) \<or>
   (\<exists>p effs. prepare_output_directory e cfg item = (Returns p, effs))"
  by (cases "prepare_output_directory e cfg item"; cases "fst (prepare_output_directory e cfg item)")
     auto

lemma process_single_url_settles:
  assumes "at_item i untouched m"
  shows "all_ok (process_single_url env i m) \<and> only_item i m (process_single_url env i m) \<and>
         (is_successful (bulk_items (process_single_url env i m) ! i) \<and>
            (\<forall>k. \<not> stop_before_track (track_envs env k)) \<longrightarrow>
          done_count (bulk_items (process_single_url env i m) ! i) =
            tracks_count (bulk_items (process_single_url env i m) ! i))"
proof -
  obtain ok m1 where f: "fetch_metadata_for_item (metadata_attempts env) i m = (ok, m1)"
    by (cases "fetch_metadata_for_item (metadata_attempts env) i m")
  have m1: "at_item i untouched m1" "only_item i m m1" "ok \<Longrightarrow> at_item i has_metadata m1"
    using fetch_metadata_loop_untouched [OF assms, of "metadata_attempts env"
        "nat MAX_METADATA_RETRIES" 1 INITIAL_RETRY_DELAY "[]"] f
    by (simp_all add: fetch_metadata_for_item_def)
  show ?thesis
  proof (cases ok)
    case False
    then have "process_single_url env i m = m1" using f by (simp add: process_single_url_def)
    then show ?thesis using m1(1,2) by (simp add: at_item_def untouched_def)
  next
    case True
    note has_metadata = m1(3) [OF True]
    have len: "i < length (bulk_items m1)" using has_metadata by (simp add: at_item_def)
    consider (raised) x effs where
        "prepare_output_directory (makedirs_exn env) (config m1) (bulk_items m1 ! i) = (Raises x, effs)"
      | (path) p effs where
        "prepare_output_directory (makedirs_exn env) (config m1) (bulk_items m1 ! i) = (Returns p, effs)"
      using prepare_cases by blast
    then show ?thesis
    proof cases
      case raised
      then have eq: "process_single_url env i m = item_raised i x (perform effs m1)"
        using f True by (simp add: process_single_url_def)
      show ?thesis
        unfolding eq using has_metadata m1(2) len
        by (simp add: item_raised_props at_item_def)
    next
      case path
      let ?m2 = "upd_item i (\<lambda>it. it\<lparr>output_path := p\<rparr>) (perform effs m1)"
      have m2: "at_item i has_metadata ?m2"
        using has_metadata by (intro has_metadata_keeps_path) simp
      obtain x m3 where d: "download_tracks_for_item (track_envs env) i ?m2 = (x, m3)"
        by (cases "download_tracks_for_item (track_envs env) i ?m2")
      have m3: "all_ok m3" "only_item i ?m2 m3" "i < length (bulk_items m3)"
          "x = None \<and> (\<forall>j. \<not> stop_before_track (track_envs env j)) \<longrightarrow>
             done_count (bulk_items m3 ! i) = tracks_count (bulk_items m3 ! i)"
        using download_tracks_for_item_has_metadata [OF m2, of "track_envs env"] d by simp_all
      have only: "only_item i m m3"
        using m1(2) m3(2) by (auto simp add: only_item_def)
      show ?thesis
      proof (cases x)
        case None
        then have eq: "process_single_url env i m = item_finished i m3"
          using f True path d by (simp add: process_single_url_def)
        show ?thesis
          unfolding eq using m3 only None by (simp add: item_finished_props)
      next
        case (Some e)
        then have eq: "process_single_url env i m = item_raised i e m3"
          using f True path d by (simp add: process_single_url_def)
        show ?thesis
          unfolding eq using m3 only by (simp add: item_raised_props)
      qed
    qed
  qed
qed

lemma untouched_settled: "untouched it \<Longrightarrow> settled env j it"
  by (simp add: untouched_def settled_def)

lemma run_loop_settles:
  assumes "all_ok m" and "i + left = length (bulk_items m)"
      and "\<forall>j. i \<le> j \<and> j < length (bulk_items m) \<longrightarrow> untouched (bulk_items m ! j)"
      and "\<forall>j. j < i \<longrightarrow> settled env j (bulk_items m ! j)"
  shows "all_ok (run_loop env i left m) \<and>
         length (bulk_items (run_loop env i left m)) = length (bulk_items m) \<and>
         (\<forall>j < length (bulk_items m). settled env j (bulk_items (run_loop env i left m) ! j))"
  using assms
proof (induction left arbitrary: i m)
  case 0
  then show ?case by simp
next
  case (Suc left)
  have early: "\<forall>j < length (bulk_items m). settled env j (bulk_items m ! j)"
  proof (intro allI impI)
    fix j assume "j < length (bulk_items m)"
    then show "settled env j (bulk_items m ! j)"
      using Suc.prems(3,4) untouched_settled by (cases "j < i") auto
  qed
  show ?case
  proof (cases "stop_before_item (env i)")
    case True
    then show ?thesis using Suc.prems(1) early by simp
  next
    case False
    let ?m0 = "emit_progress_update (upd_tracker (\<lambda>t. t\<lparr>current_url_index := int i\<rparr>) m)"
    let ?m1 = "process_single_url (env i) i ?m0"
    have i: "i < length (bulk_items m)" using Suc.prems(2) by simp
    have start: "at_item i untouched ?m0"
      using Suc.prems(1,3) i by (simp add: at_item_def)
    have p: "all_ok ?m1" "only_item i ?m0 ?m1" "settled env i (bulk_items ?m1 ! i)"
      using process_single_url_settles [OF start, of "env i"] by (simp_all add: settled_def)
    have len: "length (bulk_items ?m1) = length (bulk_items m)"
      using p(2) by (simp add: only_item_def)
    have same: "\<And>j. j \<noteq> i \<Longrightarrow> bulk_items ?m1 ! j = bulk_items m ! j"
      using p(2) by (simp add: only_item_def)
    have "all_ok (run_loop env (Suc i) left ?m1) \<and>
         length (bulk_items (run_loop env (Suc i) left ?m1)) = length (bulk_items ?m1) \<and>
         (\<forall>j < length (bulk_items ?m1). settled env j (bulk_items (run_loop env (Suc i) left ?m1) ! j))"
    proof (rule Suc.IH)
      show "all_ok ?m1" by (rule p(1))
      show "Suc i + left = length (bulk_items ?m1)" using Suc.prems(2) len by simp
      show "\<forall>j. Suc i \<le> j \<and> j < length (bulk_items ?m1) \<longrightarrow> untouched (bulk_items ?m1 ! j)"
        using Suc.prems(3) len same by simp
      show "\<forall>j. j < Suc i \<longrightarrow> settled env j (bulk_items ?m1 ! j)"
      proof (intro allI impI)
        fix j assume "j < Suc i"
        then show "settled env j (bulk_items ?m1 ! j)"
          using p(3) same [of j] Suc.prems(4) by (cases "j = i") auto
      qed
    qed
    then show ?thesis using False len by simp
  qed
qed

text \<open>The whole run.\<close>

lemma untouched_new: "untouched (new_BulkItem u n)"
  by (simp add: untouched_def zero_counts_def new_BulkItem_def is_successful_def)

lemma untouched_inv: "untouched it \<Longrightarrow> item_inv it"
  by (simp add: untouched_def zero_counts_def item_inv_def)

lemma set_items_untouched:
  assumes "all_ok m" and "\<forall>it \<in> set items. untouched it"
  shows "all_ok (set_items items m)"
  using assms by (auto simp add: all_ok_def set_items_def untouched_inv)

lemma load_lines_untouched:
  assumes "all_ok m" and "\<forall>it \<in> set (bulk_items m). untouched it"
  shows "all_ok (load_lines n lines m) \<and> (\<forall>it \<in> set (bulk_items (load_lines n lines m)). untouched it)"
  using assms
proof (induction lines arbitrary: n m)
  case Nil
  then show ?case by simp
next
  case (Cons line rest)
  let ?m' = "set_items (bulk_items m @ [new_BulkItem (strip line) n]) m"
  have new: "\<forall>it \<in> set (bulk_items m @ [new_BulkItem (strip line) n]). untouched it"
    using Cons.prems(2) by (simp add: untouched_new)
  have ok: "all_ok ?m'" using Cons.prems(1) new by (rule set_items_untouched)
  have items: "\<forall>it \<in> set (bulk_items ?m'). untouched it"
    using new by (simp add: set_items_def)
  show ?case
    using Cons.IH [OF ok items, of "n + 1"] Cons.IH [OF Cons.prems, of "n + 1"]
    by (simp add: Let_def)
qed

lemma all_ok_new: "all_ok (new_BulkDownloadManager cfg)"
  by (simp add: all_ok_def new_BulkDownloadManager_def)

lemma initialize_downloaders_fields [simp]:
  "bulk_items (initialize_downloaders x m) = bulk_items m"
  "history (initialize_downloaders x m) = history m"
  by (simp_all add: initialize_downloaders_def split: option.splits)

lemma handle_completion_fields [simp]:
  "bulk_items (handle_completion m) = bulk_items m"
  "history (handle_completion m) = history m"
  by (simp_all add: handle_completion_def)

lemma all_ok_cong: "bulk_items m' = bulk_items m \<Longrightarrow> history m' = history m \<Longrightarrow> all_ok m' = all_ok m"
  by (simp add: all_ok_def)

lemma run_settles:
  "all_ok (run env cfg) \<and>
   (\<forall>j < length (bulk_items (run env cfg)). settled (item_envs env) j (bulk_items (run env cfg) ! j))"
proof (cases "file_read env")
  case (Raises x)
  then show ?thesis
    using all_ok_new [of cfg]
    by (simp add: run_def load_urls_from_file_def new_BulkDownloadManager_def)
next
  case (Returns lines)
  let ?m = "load_lines 1 lines (new_BulkDownloadManager cfg)"
  have loaded: "all_ok ?m" "\<forall>it \<in> set (bulk_items ?m). untouched it"
    using load_lines_untouched [OF all_ok_new, of cfg 1 lines]
    by (simp_all add: new_BulkDownloadManager_def)
  show ?thesis
  proof (cases "bulk_items ?m = []")
    case True
    then show ?thesis
      using Returns loaded(1) by (simp add: run_def load_urls_from_file_def Let_def)
  next
    case False
    let ?n = "int (length (bulk_items ?m))"
    let ?m3 = "initialize_downloaders (init_exn env)
                 (emit (Bulk_started ?n) (upd_tracker (start_tracking ?n (clock_at_start env)) ?m))"
    have eq: "run env cfg = handle_completion (run_loop (item_envs env) 0 (length (bulk_items ?m3)) ?m3)"
      using Returns False by (simp add: run_def load_urls_from_file_def Let_def)
    have ok3: "all_ok ?m3" using loaded(1) by (simp add: all_ok_cong [of ?m3 ?m])
    have un3: "\<forall>j. 0 \<le> j \<and> j < length (bulk_items ?m3) \<longrightarrow> untouched (bulk_items ?m3 ! j)"
      using loaded(2) by simp
    have "all_ok (run_loop (item_envs env) 0 (length (bulk_items ?m3)) ?m3) \<and>
         length (bulk_items (run_loop (item_envs env) 0 (length (bulk_items ?m3)) ?m3)) =
           length (bulk_items ?m3) \<and>
         (\<forall>j < length (bulk_items ?m3).
            settled (item_envs env) j
              (bulk_items (run_loop (item_envs env) 0 (length (bulk_items ?m3)) ?m3) ! j))"
      using ok3 un3 by (intro run_loop_settles) simp_all
    then show ?thesis
      unfolding eq
      by (simp add: all_ok_cong [of "handle_completion m" m for m])
  qed
qed

text \<open>
  C1. In every value that the list of items takes during a run, and in its
  value at the end, every item has
  \<open>downloaded_count + len(failed_tracks) \<le> tracks_count\<close>. For an item whose
  download of tracks ended (its status is \<^verbatim>\<open>completed\<close> or
  \<^verbatim>\<open>completed_with_errors\<close>) with the stop flag never set before one of its
  tracks, the two sides are equal.
\<close>

theorem item_counts_within_tracks_count:
  "(\<forall>its \<in> set (history (run env cfg)). \<forall>it \<in> set its.
      downloaded_count it + int (length (failed_tracks it)) \<le> tracks_count it) \<and>
   (\<forall>it \<in> set (bulk_items (run env cfg)).
      downloaded_count it + int (length (failed_tracks it)) \<le> tracks_count it) \<and>
   (\<forall>j < length (bulk_items (run env cfg)).
      is_successful (bulk_items (run env cfg) ! j) \<and>
      (\<forall>k. \<not> stop_before_track (track_envs (item_envs env j) k)) \<longrightarrow>
      downloaded_count (bulk_items (run env cfg) ! j) +
        int (length (failed_tracks (bulk_items (run env cfg) ! j))) =
      tracks_count (bulk_items (run env cfg) ! j))"
  using run_settles [of env cfg]
  by (simp add: all_ok_def item_inv_def settled_def done_count_def)

text \<open>
  An album of two tracks: one is downloaded and one fails, and the sum is 2; the
  counters of the item are listed for each value that the list of items takes.
  When the run is stopped before the second track, the sum is 1 and stays below 2.
\<close>

theorem item_counts_within_tracks_count_witness:
  "map (map (\<lambda>it. (downloaded_count it, length (failed_tracks it), tracks_count it)))
     (history (run run_album default_config)) =
     [[(0, 0, 0)], [(0, 0, 0)], [(0, 0, 0)], [(0, 0, 0)], [(0, 0, 2)], [(0, 0, 2)],
      [(1, 0, 2)], [(1, 1, 2)], [(1, 1, 2)]] \<and>
   downloaded_count (history (run run_album default_config) ! 6 ! 0) +
     int (length (failed_tracks (history (run run_album default_config) ! 6 ! 0))) \<le>
     tracks_count (history (run run_album default_config) ! 6 ! 0) \<and>
   map (\<lambda>it. (downloaded_count it, length (failed_tracks it), tracks_count it))
     (bulk_items (run run_album default_config)) = [(1, 1, 2)] \<and>
   is_successful (bulk_items (run run_album default_config) ! 0) \<and>
   downloaded_count (bulk_items (run run_album default_config) ! 0) +
     int (length (failed_tracks (bulk_items (run run_album default_config) ! 0))) =
     tracks_count (bulk_items (run run_album default_config) ! 0) \<and>
   map (\<lambda>it. (downloaded_count it, length (failed_tracks it), tracks_count it))
     (bulk_items (run run_album_stopped default_config)) = [(1, 0, 2)] \<and>
   downloaded_count (bulk_items (run run_album_stopped default_config) ! 0) +
     int (length (failed_tracks (bulk_items (run run_album_stopped default_config) ! 0))) \<le>
     tracks_count (bulk_items (run run_album_stopped default_config) ! 0)"
proof -
  have hist: "map (map (\<lambda>it. (downloaded_count it, length (failed_tracks it), tracks_count it)))
     (history (run run_album default_config)) =
     [[(0, 0, 0)], [(0, 0, 0)], [(0, 0, 0)], [(0, 0, 0)], [(0, 0, 2)], [(0, 0, 2)],
      [(1, 0, 2)], [(1, 1, 2)], [(1, 1, 2)]]"
    by code_simp
  have counts: "map (\<lambda>it. (downloaded_count it, length (failed_tracks it), tracks_count it))
     (bulk_items (run run_album default_config)) = [(1, 1, 2)]"
    by code_simp
  have stopped: "map (\<lambda>it. (downloaded_count it, length (failed_tracks it), tracks_count it))
     (bulk_items (run run_album_stopped default_config)) = [(1, 0, 2)]"
    by code_simp
  have succ: "is_successful (bulk_items (run run_album default_config) ! 0)"
    by code_simp
  have nostop: "\<forall>k. \<not> stop_before_track (track_envs (item_envs run_album 0) k)"
    by (simp add: run_album_def)
  have "length (history (run run_album default_config)) = 9"
    using arg_cong [OF hist, of length] by simp
  then have in_hist: "history (run run_album default_config) ! 6 \<in> set (history (run run_album default_config))"
    by simp
  have "length (history (run run_album default_config) ! 6) = 1"
    by code_simp
  then have in_entry: "history (run run_album default_config) ! 6 ! 0 \<in>
      set (history (run run_album default_config) ! 6)"
    by simp
  have "length (bulk_items (run run_album default_config)) = 1"
    using arg_cong [OF counts, of length] by simp
  then have len: "0 < length (bulk_items (run run_album default_config))"
    by simp
  have "length (bulk_items (run run_album_stopped default_config)) = 1"
    using arg_cong [OF stopped, of length] by simp
  then have in_stopped: "bulk_items (run run_album_stopped default_config) ! 0 \<in>
      set (bulk_items (run run_album_stopped default_config))"
    by simp
  show ?thesis
    using item_counts_within_tracks_count [of run_album default_config]
          item_counts_within_tracks_count [of run_album_stopped default_config]
          hist counts stopped succ nostop in_hist in_entry len in_stopped
    by blast
qed

section \<open>A stop request during the download of a track\<close>

text \<open>
  C4 fails on the code. A batch file names one track. The stop flag is not set
  when the loop over the tracks reaches the track, and is set when its first
  attempt starts: the track is appended to \<^verbatim>\<open>failed_tracks\<close> of its item with
  the message \<^verbatim>\<open>Stopped by user\<close>, the counter of failed tracks is 1 and the
  completion event reports one failed track. The same holds, with the message
  \<^verbatim>\<open>Download stopped by user\<close>, when the Tidal downloader returns the dictionary
  that reports the stop.
\<close>

theorem stop_recorded_as_failed_track:
  "map failed_tracks (bulk_items (run (run_track env_stopped) default_config)) =
     [[(''Song'', ''Band'', ''Stopped by user'')]] \<and>
   tracker_failed_tracks (progress_tracker (run (run_track env_stopped) default_config)) = 1 \<and>
   map status (bulk_items (run (run_track env_stopped) default_config)) =
     [''completed_with_errors''] \<and>
   map failed_tracks (bulk_items (run (run_track env_sentinel) default_config)) =
     [[(''Song'', ''Band'', ''Download stopped by user'')]] \<and>
   tracker_failed_tracks (progress_tracker (run (run_track env_sentinel) default_config)) = 1 \<and>
   last (log (run (run_track env_sentinel) default_config)) =
     Emit (Bulk_completed \<lparr>cd_total_urls = 1, cd_successful_urls = 1, cd_failed_urls = 0,
             cd_total_tracks = 1, cd_downloaded_tracks = 0, cd_failed_tracks = 1\<rparr>)"
  by code_simp

section \<open>The percentage of a progress event\<close>

text \<open>
  C7 fails on the code. A batch file names two tracks whose files are in place.
  The run emits six progress events: three while the first item is the current
  one, with \<^verbatim>\<open>processed_urls\<close> 1 of 2, and three with \<^verbatim>\<open>processed_urls\<close> 2 of 2.
  Their \<^verbatim>\<open>progress_percentage\<close> is 0 throughout, not 50 and 100: it is computed
  from the field \<^verbatim>\<open>processed_urls\<close> of the tracker, which no step of the run
  assigns.
\<close>

theorem progress_percentage_stays_zero:
  "map (\<lambda>pd. (pd_total_urls pd, pd_processed_urls pd, pd_progress_percentage pd))
     (progress_events (log (run run_two_urls default_config))) =
     [(2, 1, 0), (2, 1, 0), (2, 1, 0), (2, 2, 0), (2, 2, 0), (2, 2, 0)] \<and>
   map status (bulk_items (run run_two_urls default_config)) = [''completed'', ''completed''] \<and>
   processed_urls (progress_tracker (run run_two_urls default_config)) = 0"
  by code_simp

section \<open>Files that are in place already\<close>

text \<open>
  C5 fails on the code. The cached file of the track exists and has size 0, and
  there is no file at the destination: the iteration of \<^verbatim>\<open>DownloadWorker.run\<close>
  copies the empty file to the destination, reports success and calls no
  downloader. The cache worker makes such a file: a download that leaves an
  empty file is moved into the cache and recorded as the cached file of the
  track.
\<close>

theorem empty_cached_file_is_copied:
  "getsize (fs_check (download_env dw_env_empty_cached)) (cached_file ptrack1_cached) = 0 \<and>
   \<not> path_exists (fs_check (download_env dw_env_empty_cached)) (new_filepath dworker1 ptrack1_cached) \<and>
   dw_iteration dw_env_empty_cached 0 1 ptrack1_cached dworker1 =
     (Next_track,
      dworker1\<lparr>dw_log :=
        [Emit (Progress ''Starting download (1/1): Song - Band''),
         Emit (Progress ''Using cached file for: Song''),
         Copy2 ''cache/Song - Band.flac'' ''out/Song - Band.flac'',
         Emit (Progress ''Successfully copied from cache: Song - Band'')]\<rparr>) \<and>
   getsize (fs_after env_empty_download) ''cache/tmp.flac'' = 0 \<and>
   perform_download worker1 env_empty_download 0 0 =
     (Returns (mark_cached worker1 0 ''cache/Song - Band.flac''),
      [Adapter_call (Tidal_download ''Song Band'' ''US1234567890'' ''cache''),
       Replace ''cache/tmp.flac'' ''cache/Song - Band.flac'',
       Emit (Track_cached 0 ''cache/Song - Band.flac'')])"
  by code_simp

text \<open>
  C6. In the bulk download of a track, when the destination file exists with a
  size above zero at the first attempt, the function performs no effect: no
  call of a downloader, no sleep. It returns success with the message
  \<^verbatim>\<open>File already exists\<close>, provided that the stop flag is not set when the
  attempt starts and that the configuration allows an attempt. In an iteration
  of \<^verbatim>\<open>DownloadWorker.run\<close> that is not stopped, when the destination file exists
  with a size above zero (and creating the album folder, where that is done,
  does not fail), the loop goes on with the next track, the list of failed
  tracks is as before, the worker has called no downloader and its last message
  reports the track as skipped.
\<close>

theorem existing_file_skips_download:
  "(path_exists (fs_check (env 1))
      (path_join (output_path item) (get_formatted_filename cfg track item)) \<and>
    0 < getsize (fs_check (env 1))
      (path_join (output_path item) (get_formatted_filename cfg track item)) \<longrightarrow>
      snd (download_single_track_with_retry cfg env track item) = [] \<and>
      (\<not> stop_flag (env 1) \<and> (retry_404_enabled cfg \<longrightarrow> 1 \<le> retry_404_max_attempts cfg) \<longrightarrow>
         fst (download_single_track_with_retry cfg env track item) =
           Returns (True, ''File already exists''))) \<and>
   (path_exists (fs_check (download_env e)) (new_filepath w ptrack) \<and>
    0 < getsize (fs_check (download_env e)) (new_filepath w ptrack) \<and>
    \<not> stop_flag (download_env e) \<and>
    (in_album_folder w \<longrightarrow> dw_makedirs_exn e = None) \<longrightarrow>
      fst (dw_iteration e i n ptrack w) = Next_track \<and>
      dw_failed_tracks (snd (dw_iteration e i n ptrack w)) = dw_failed_tracks w \<and>
      filter is_adapter_call (dw_log (snd (dw_iteration e i n ptrack w))) =
        filter is_adapter_call (dw_log w) \<and>
      last (dw_log (snd (dw_iteration e i n ptrack w))) =
        Emit (Progress (''Skipped: '' @ name_of ptrack)))"
proof -
  let ?p = "path_join (output_path item) (get_formatted_filename cfg track item)"
  let ?max = "if retry_404_enabled cfg then retry_404_max_attempts cfg else 1"
  have bulk_effects: "snd (download_single_track_with_retry cfg env track item) = []"
    if "path_exists (fs_check (env 1)) ?p" "0 < getsize (fs_check (env 1)) ?p"
  proof (cases "nat ?max")
    case 0
    then show ?thesis by (simp add: download_single_track_with_retry_def Let_def)
  next
    case (Suc left)
    then show ?thesis
      using that by (simp add: download_single_track_with_retry_def Let_def attempt_body_def)
  qed
  have bulk_result: "fst (download_single_track_with_retry cfg env track item) =
      Returns (True, ''File already exists'')"
    if "path_exists (fs_check (env 1)) ?p" "0 < getsize (fs_check (env 1)) ?p"
       "\<not> stop_flag (env 1)" "retry_404_enabled cfg \<longrightarrow> 1 \<le> retry_404_max_attempts cfg"
  proof -
    from that(4) obtain left where "nat ?max = Suc left"
      by (cases "nat ?max") (auto split: if_splits)
    then show ?thesis
      using that by (simp add: download_single_track_with_retry_def Let_def attempt_body_def)
  qed
  have worker: "fst (dw_iteration e i n ptrack w) = Next_track \<and>
      dw_failed_tracks (snd (dw_iteration e i n ptrack w)) = dw_failed_tracks w \<and>
      filter is_adapter_call (dw_log (snd (dw_iteration e i n ptrack w))) =
        filter is_adapter_call (dw_log w) \<and>
      last (dw_log (snd (dw_iteration e i n ptrack w))) =
        Emit (Progress (''Skipped: '' @ name_of ptrack))"
    if "path_exists (fs_check (download_env e)) (new_filepath w ptrack)"
       "0 < getsize (fs_check (download_env e)) (new_filepath w ptrack)"
       "\<not> stop_flag (download_env e)" "in_album_folder w \<longrightarrow> dw_makedirs_exn e = None"
    using that
    by (simp add: dw_iteration_def Let_def say_def dw_perform_def is_adapter_call_def)
  show ?thesis using bulk_effects bulk_result worker by blast
qed

text \<open>
  A track whose file is in place, in the bulk download and in the download
  worker; and a batch of two such tracks, which completes without a call of a
  downloader.
\<close>

theorem existing_file_skips_download_witness:
  "path_exists (fs_check (env_exists 1))
      (path_join (output_path item1) (get_formatted_filename default_config track1 item1)) \<and>
   0 < getsize (fs_check (env_exists 1))
      (path_join (output_path item1) (get_formatted_filename default_config track1 item1)) \<and>
   \<not> stop_flag (env_exists 1) \<and> 1 \<le> retry_404_max_attempts default_config \<and>
   download_single_track_with_retry default_config env_exists track1 item1 =
     (Returns (True, ''File already exists''), []) \<and>
   path_exists (fs_check (download_env dw_env_exists)) (new_filepath dworker1 ptrack1_cached) \<and>
   \<not> in_album_folder dworker1 \<and>
   fst (dw_iteration dw_env_exists 0 1 ptrack1_cached dworker1) = Next_track \<and>
   dw_failed_tracks (snd (dw_iteration dw_env_exists 0 1 ptrack1_cached dworker1)) = [] \<and>
   filter is_adapter_call (dw_log (snd (dw_iteration dw_env_exists 0 1 ptrack1_cached dworker1))) = [] \<and>
   last (dw_log (snd (dw_iteration dw_env_exists 0 1 ptrack1_cached dworker1))) =
     Emit (Progress ''Skipped: Song - Band'') \<and>
   filter is_adapter_call (log (run run_two_urls default_config)) = [] \<and>
   map downloaded_count (bulk_items (run run_two_urls default_config)) = [1, 1]"
proof -
  have ex: "path_exists (fs_check (env_exists 1))
      (path_join (output_path item1) (get_formatted_filename default_config track1 item1))"
    "0 < getsize (fs_check (env_exists 1))
      (path_join (output_path item1) (get_formatted_filename default_config track1 item1))"
    "\<not> stop_flag (env_exists 1)" "1 \<le> retry_404_max_attempts default_config"
    by (simp_all add: env_exists_def path_exists_def getsize_def default_config_def)
  have dw: "path_exists (fs_check (download_env dw_env_exists)) (new_filepath dworker1 ptrack1_cached)"
    "0 < getsize (fs_check (download_env dw_env_exists)) (new_filepath dworker1 ptrack1_cached)"
    "\<not> stop_flag (download_env dw_env_exists)" "\<not> in_album_folder dworker1"
    by (simp_all add: dw_env_exists_def env_exists_def path_exists_def getsize_def
          in_album_folder_def dworker1_def)
  have start: "dw_failed_tracks dworker1 = []" "dw_log dworker1 = []" "name_of ptrack1_cached = ''Song - Band''"
    by (simp_all add: dworker1_def name_of_def ptrack1_cached_def)
  have batch: "filter is_adapter_call (log (run run_two_urls default_config)) = []"
    "map downloaded_count (bulk_items (run run_two_urls default_config)) = [1, 1]"
    by code_simp+
  have pair: "x = (fst x, snd x)" for x :: "(bool \<times> string) outcome \<times> effect list" by simp
  have bulk: "download_single_track_with_retry default_config env_exists track1 item1 =
     (Returns (True, ''File already exists''), [])"
    using existing_file_skips_download [of env_exists item1 default_config track1] ex
    by (subst pair) simp
  show ?thesis
    using existing_file_skips_download [of _ _ _ _ dw_env_exists dworker1 ptrack1_cached 0 1]
          bulk ex dw start batch
    by simp
qed

end
